theory Spec2Isabelle
  imports
    Complex_Main
    "HOL-Library.Char_ord"
    "HOL-Library.List_Lexorder"
    "HOL-Library.Product_Lexorder"
begin

section \<open>The document store of the MERN task manager\<close>

text \<open>
  The back end is an Express application over Mongoose models. Every handler reads
  documents, changes some, and answers with a status code and a JSON body. The model
  passes the store explicitly: a handler takes the store and the request and returns the
  response together with the new store.

  Conventions of the embedding:
  \<^item> an ObjectId is the string that \<open>toString()\<close> gives: 24 hexadecimal digits in
    lower case. An identifier of a request is the string as sent; \<open>castObjectId\<close> is the
    cast that Mongoose applies where it reads one;
  \<^item> a \<open>Date\<close> is an integer (milliseconds); \<open>new Date()\<close> is the argument
    \<open>now\<close> of the handler; a fresh \<open>_id\<close> is the argument \<open>oid\<close>;
  \<^item> an optional field (\<open>undefined\<close> in JavaScript) is an \<open>option\<close>;
  \<^item> a collection is the list of its documents in insertion order;
  \<^item> a \<open>Number\<close> that the handlers count with (\<open>order\<close>, \<open>page\<close>, \<open>limit\<close>,
    \<open>total\<close>) is an \<open>int\<close>: the model covers the finite Numbers without a
    fractional part. The sum \<open>order + 1\<close> is rounded as a double rounds it
    (\<open>to_double\<close>);
  \<^item> the \<open>password\<close> hash, \<open>budget\<close>, \<open>attachments\<close> and \<open>updatedAt\<close> take no
    part in any handler's decisions and are left out of the documents.
\<close>

type_synonym objectId = string
type_synonym date = int

record user =
  u_id :: objectId
  u_name :: string
  u_email :: string
  u_role :: string
  u_department :: string
  u_phone :: "string option"
  u_isActive :: bool

record member =
  m_user :: objectId
  m_role :: string
  m_joinedAt :: date

record project =
  p_id :: objectId
  p_name :: string
  p_description :: "string option"
  p_status :: string
  p_priority :: string
  p_owner :: objectId
  p_members :: "member list"
  p_startDate :: date
  p_dueDate :: "date option"
  p_completedAt :: "date option"
  p_tags :: "string list"
  p_color :: string
  p_isPublic :: bool
  p_isArchived :: bool
  p_createdAt :: date

record subtask =
  s_id :: objectId
  s_title :: string
  s_isCompleted :: bool
  s_completedAt :: "date option"

record task =
  t_id :: objectId
  t_title :: string
  t_description :: "string option"
  t_status :: string
  t_priority :: string
  t_project :: objectId
  t_creator :: objectId
  t_assignee :: "objectId option"
  t_subtasks :: "subtask list"
  t_startDate :: "date option"
  t_dueDate :: "date option"
  t_completedAt :: "date option"
  t_estimatedHours :: int
  t_actualHours :: int
  t_tags :: "string list"
  t_order :: int
  t_watchers :: "objectId list"
  t_isArchived :: bool
  t_createdAt :: date

record reaction =
  r_user :: objectId
  r_type :: string

record comment =
  c_id :: objectId
  c_content :: string
  c_task :: objectId
  c_author :: objectId
  c_mentions :: "objectId list"
  c_isEdited :: bool
  c_editedAt :: "date option"
  c_parentComment :: "objectId option"
  c_reactions :: "reaction list"
  c_isDeleted :: bool
  c_createdAt :: date

record db =
  users :: "user list"
  projects :: "project list"
  tasks :: "task list"
  comments :: "comment list"

text \<open>A response: \<open>res.status(n).json({success, message, data})\<close>.\<close>

record 'a response =
  status :: nat
  success :: bool
  message :: string
  data :: "'a option"

definition fail :: "nat \<Rightarrow> string \<Rightarrow> 'a response" where
  "fail code msg = \<lparr>status = code, success = False, message = msg, data = None\<rparr>"

definition ok :: "nat \<Rightarrow> string \<Rightarrow> 'a option \<Rightarrow> 'a response" where
  "ok code msg d = \<lparr>status = code, success = True, message = msg, data = d\<rparr>"

text \<open>\<open>s.toLowerCase()\<close>, on the ASCII letters.\<close>

definition lower_char :: "char \<Rightarrow> char" where
  "lower_char c =
     (case map_of (zip ''ABCDEFGHIJKLMNOPQRSTUVWXYZ'' ''abcdefghijklmnopqrstuvwxyz'') c of
        None \<Rightarrow> c
      | Some l \<Rightarrow> l)"

definition toLowerCase :: "string \<Rightarrow> string" where
  "toLowerCase s = map lower_char s"

text \<open>
  The cast of a string to an ObjectId, as the schemas and queries of Mongoose apply it to
  an identifier of a request: a string of 24 hexadecimal digits (what \<open>isMongoId\<close> of the
  routes admits, in either case of the letters) is the identifier that prints in lower
  case; another string is refused with a \<open>CastError\<close> (\<open>None\<close>).
\<close>

definition hex_digits :: string where
  "hex_digits = ''0123456789abcdefABCDEF''"

definition castObjectId :: "string \<Rightarrow> objectId option" where
  "castObjectId s =
     (if length s = 24 \<and> list_all (\<lambda>c. c \<in> set hex_digits) s
      then Some (toLowerCase s) else None)"

text \<open>
  \<open>Model.findById(id)\<close> casts \<open>id\<close> and gives the document with that \<open>_id\<close> (the first
  one of the list) or \<open>null\<close>; where the cast fails it throws, which every handler
  checks first (\<open>cast_fails\<close>) and answers from its \<open>catch\<close>.
  \<open>doc.save()\<close> writes the document back in the place of the stored document with its
  \<open>_id\<close>; \<open>Model.create\<close> appends a document; \<open>doc.deleteOne()\<close> removes the stored
  document with its \<open>_id\<close>.
\<close>

fun update_first :: "('a \<Rightarrow> bool) \<Rightarrow> ('a \<Rightarrow> 'a) \<Rightarrow> 'a list \<Rightarrow> 'a list" where
  "update_first P f [] = []"
| "update_first P f (x # xs) = (if P x then f x # xs else x # update_first P f xs)"

fun delete_first :: "('a \<Rightarrow> bool) \<Rightarrow> 'a list \<Rightarrow> 'a list" where
  "delete_first P [] = []"
| "delete_first P (x # xs) = (if P x then xs else x # delete_first P xs)"

definition cast_fails :: "string \<Rightarrow> bool" where
  "cast_fails i = (castObjectId i = None)"

definition findById :: "('a \<Rightarrow> objectId) \<Rightarrow> 'a list \<Rightarrow> string \<Rightarrow> 'a option" where
  "findById ident docs i =
     (case castObjectId i of
        None \<Rightarrow> None
      | Some c \<Rightarrow> find (\<lambda>d. ident d = c) docs)"

definition save :: "('a \<Rightarrow> objectId) \<Rightarrow> 'a \<Rightarrow> 'a list \<Rightarrow> 'a list" where
  "save ident x docs = update_first (\<lambda>d. ident d = ident x) (\<lambda>d. x) docs"

definition deleteOne :: "('a \<Rightarrow> objectId) \<Rightarrow> 'a \<Rightarrow> 'a list \<Rightarrow> 'a list" where
  "deleteOne ident x docs = delete_first (\<lambda>d. ident d = ident x) docs"

text \<open>\<open>x || dflt\<close> on an optional string: \<open>undefined\<close> and \<open>''\<close> are falsy.\<close>

fun or_default :: "string option \<Rightarrow> string \<Rightarrow> string" where
  "or_default None dflt = dflt"
| "or_default (Some s) dflt = (if s = [] then dflt else s)"

text \<open>\<open>if (x)\<close> on an optional string.\<close>

fun truthy :: "string option \<Rightarrow> bool" where
  "truthy None = False"
| "truthy (Some s) = (s \<noteq> [])"

text \<open>A destructuring default, \<open>const {x = dflt} = req.query\<close>: only \<open>undefined\<close>
  takes the default.\<close>

fun or_default_undef :: "string option \<Rightarrow> string \<Rightarrow> string" where
  "or_default_undef None dflt = dflt"
| "or_default_undef (Some s) dflt = s"

text \<open>An optional identifier of a request body, cast where it is given: \<open>None\<close> when the
  cast fails.\<close>

definition cast_optional :: "string option \<Rightarrow> objectId option option" where
  "cast_optional v =
     (case v of
        None \<Rightarrow> Some None
      | Some s \<Rightarrow> map_option Some (castObjectId s))"

text \<open>
  What the platform under the handlers decides and the repository does not contain:
  \<^item> \<open>env_regex p\<close>: the case-insensitive matcher of the pattern \<open>p\<close>
    (\<open>new RegExp(p, 'i')\<close> and \<open>{$regex: p, $options: 'i'}\<close>), or \<open>None\<close> when the
    pattern is refused (a \<open>SyntaxError\<close> of \<open>new RegExp\<close>, or an error of the store);
  \<^item> \<open>env_parseDate s\<close>: the time of \<open>new Date(s)\<close>, or \<open>None\<close> for an invalid date;
  \<^item> \<open>env_sortable f\<close>: whether the store takes the string \<open>f\<close> of a request as a
    sort key (it refuses, for one, the empty path).
\<close>

record env =
  env_regex :: "string \<Rightarrow> (string \<Rightarrow> bool) option"
  env_parseDate :: "string \<Rightarrow> date option"
  env_sortable :: "string \<Rightarrow> bool"

text \<open>The sort keys that the handlers themselves supply when the request names none,
  \<open>createdAt\<close> and \<open>updatedAt\<close>, are the timestamps of the schemas: the store takes
  them.\<close>

definition sortable :: "env \<Rightarrow> string \<Rightarrow> bool" where
  "sortable e f = (f = ''createdAt'' \<or> f = ''updatedAt'' \<or> env_sortable e f)"

section \<open>Project model and controller\<close>

definition project_statuses :: "string list" where
  "project_statuses = [''planning'', ''in-progress'', ''on-hold'', ''completed'', ''cancelled'']"

definition priorities :: "string list" where
  "priorities = [''low'', ''medium'', ''high'', ''critical'']"

definition member_roles :: "string list" where
  "member_roles = [''viewer'', ''member'', ''admin'']"

text \<open>The validators of \<open>ProjectSchema\<close>: \<open>required\<close>, \<open>maxlength\<close>, \<open>enum\<close>.\<close>

definition member_valid :: "member \<Rightarrow> bool" where
  "member_valid m = (m_role m \<in> set member_roles)"

definition description_valid :: "nat \<Rightarrow> string option \<Rightarrow> bool" where
  "description_valid n d = (case d of None \<Rightarrow> True | Some s \<Rightarrow> length s \<le> n)"

definition project_valid :: "project \<Rightarrow> bool" where
  "project_valid p =
     (p_name p \<noteq> [] \<and> length (p_name p) \<le> 100
      \<and> description_valid 2000 (p_description p)
      \<and> p_status p \<in> set project_statuses
      \<and> p_priority p \<in> set priorities
      \<and> list_all member_valid (p_members p))"

text \<open>
  \<open>ProjectSchema.pre('save')\<close>: the completion date is written once, when the status
  was modified and is \<open>completed\<close> and no date is there yet.
\<close>

definition ProjectSchema_pre_save :: "bool \<Rightarrow> date \<Rightarrow> project \<Rightarrow> project" where
  "ProjectSchema_pre_save status_modified now p =
     (if status_modified \<and> p_status p = ''completed'' \<and> p_completedAt p = None
      then p\<lparr>p_completedAt := Some now\<rparr> else p)"

text \<open>\<open>ProjectSchema.methods.isMember\<close>: the owner, or a user of the member list.\<close>

definition member_ids :: "project \<Rightarrow> objectId list" where
  "member_ids p = map m_user (p_members p)"

definition isMember :: "project \<Rightarrow> objectId \<Rightarrow> bool" where
  "isMember p userId = (p_owner p = userId \<or> list_ex (\<lambda>m. m_user m = userId) (p_members p))"

subsection \<open>createProject\<close>

record member_input =
  mi_user :: string
  mi_role :: "string option"

record project_input =
  pi_name :: string
  pi_description :: "string option"
  pi_status :: "string option"
  pi_priority :: "string option"
  pi_startDate :: "date option"
  pi_dueDate :: "date option"
  pi_tags :: "string list option"
  pi_color :: "string option"
  pi_members :: "member_input list option"
  pi_isPublic :: "bool option"

text \<open>A member subdocument as the schema casts it: the user cast to an ObjectId, role
  \<open>member\<close> and \<open>joinedAt = now\<close> by default. \<open>None\<close> when the cast of the user
  fails.\<close>

definition cast_member :: "date \<Rightarrow> member_input \<Rightarrow> member option" where
  "cast_member now mi =
     map_option
       (\<lambda>c. \<lparr>m_user = c,
             m_role = (case mi_role mi of None \<Rightarrow> ''member'' | Some r \<Rightarrow> r),
             m_joinedAt = now\<rparr>)
       (castObjectId (mi_user mi))"

definition createProject ::
  "db \<Rightarrow> user \<Rightarrow> project_input \<Rightarrow> objectId \<Rightarrow> date \<Rightarrow> project response \<times> db" where
  "createProject d requester body oid now =
     (case those (map (cast_member now)
                    (case pi_members body of None \<Rightarrow> [] | Some ms \<Rightarrow> ms)) of
        None \<Rightarrow> (fail 500 ''Error creating project'', d)
      | Some members \<Rightarrow>
          (let p = \<lparr>p_id = oid,
                    p_name = pi_name body,
                    p_description = pi_description body,
                    p_status = or_default (pi_status body) ''planning'',
                    p_priority = or_default (pi_priority body) ''medium'',
                    p_owner = u_id requester,
                    p_members = members,
                    p_startDate = (case pi_startDate body of None \<Rightarrow> now | Some s \<Rightarrow> s),
                    p_dueDate = pi_dueDate body,
                    p_completedAt = None,
                    p_tags = (case pi_tags body of None \<Rightarrow> [] | Some ts \<Rightarrow> ts),
                    p_color = or_default (pi_color body) ''#3B82F6'',
                    p_isPublic = (case pi_isPublic body of None \<Rightarrow> False | Some b \<Rightarrow> b),
                    p_isArchived = False,
                    p_createdAt = now\<rparr>
           in if project_valid p
              then (let p' = ProjectSchema_pre_save True now p
                    in (ok 201 ''Project created successfully'' (Some p'),
                        d\<lparr>projects := projects d @ [p']\<rparr>))
              else (fail 500 ''Error creating project'', d)))"

subsection \<open>updateProject\<close>

record project_update =
  pu_name :: "string option"
  pu_description :: "string option"
  pu_status :: "string option"
  pu_priority :: "string option"
  pu_startDate :: "date option"
  pu_dueDate :: "date option"
  pu_tags :: "string list option"
  pu_color :: "string option"
  pu_isPublic :: "bool option"
  pu_isArchived :: "bool option"

text \<open>\<open>findByIdAndUpdate(id, updateData, {new: true, runValidators: true})\<close>: the fields
  present in the body are written to the stored document; no \<open>save\<close> middleware runs.\<close>

definition set_opt :: "'a option \<Rightarrow> 'a \<Rightarrow> 'a" where
  "set_opt v old = (case v of None \<Rightarrow> old | Some x \<Rightarrow> x)"

definition set_opt_field :: "'a option \<Rightarrow> 'a option \<Rightarrow> 'a option" where
  "set_opt_field v old = (case v of None \<Rightarrow> old | Some x \<Rightarrow> Some x)"

definition apply_project_update :: "project_update \<Rightarrow> project \<Rightarrow> project" where
  "apply_project_update u p =
     p\<lparr>p_name := set_opt (pu_name u) (p_name p),
       p_description := set_opt_field (pu_description u) (p_description p),
       p_status := set_opt (pu_status u) (p_status p),
       p_priority := set_opt (pu_priority u) (p_priority p),
       p_startDate := set_opt (pu_startDate u) (p_startDate p),
       p_dueDate := set_opt_field (pu_dueDate u) (p_dueDate p),
       p_tags := set_opt (pu_tags u) (p_tags p),
       p_color := set_opt (pu_color u) (p_color p),
       p_isPublic := set_opt (pu_isPublic u) (p_isPublic p),
       p_isArchived := set_opt (pu_isArchived u) (p_isArchived p)\<rparr>"

definition updateProject ::
  "db \<Rightarrow> user \<Rightarrow> string \<Rightarrow> project_update \<Rightarrow> project response \<times> db" where
  "updateProject d requester pid body =
     (if cast_fails pid then (fail 500 ''Error updating project'', d)
      else case findById p_id (projects d) pid of
        None \<Rightarrow> (fail 404 ''Project not found'', d)
      | Some p \<Rightarrow>
          (let member = find (\<lambda>m. m_user m = u_id requester) (p_members p);
               isOwner = (p_owner p = u_id requester);
               isAdmin = (case member of None \<Rightarrow> False | Some m \<Rightarrow> m_role m = ''admin'')
           in if \<not> isOwner \<and> \<not> isAdmin \<and> u_role requester \<noteq> ''admin''
              then (fail 403 ''Not authorized to update this project'', d)
              else (let p' = apply_project_update body p
                    in if project_valid p'
                       then (ok 200 ''Project updated successfully'' (Some p'),
                             d\<lparr>projects := save p_id p' (projects d)\<rparr>)
                       else (fail 500 ''Error updating project'', d))))"

subsection \<open>deleteProject\<close>


subsection \<open>addMember and removeMember\<close>

text \<open>
  Both handlers compare the user id of the request with the stored ids as strings
  (\<open>m.user.toString() === userId\<close>, \<open>req.params.userId === project.owner.toString()\<close>);
  \<open>addMember\<close> then pushes the id of the request, which the schema casts.
\<close>

definition addMember ::
  "db \<Rightarrow> user \<Rightarrow> string \<Rightarrow> string \<Rightarrow> string option \<Rightarrow> date \<Rightarrow> member list response \<times> db" where
  "addMember d requester pid userId role_opt now =
     (let role = (case role_opt of None \<Rightarrow> ''member'' | Some r \<Rightarrow> r)
      in if cast_fails pid then (fail 500 ''Error adding member'', d)
      else case findById p_id (projects d) pid of
        None \<Rightarrow> (fail 404 ''Project not found'', d)
      | Some p \<Rightarrow>
          if p_owner p \<noteq> u_id requester \<and> u_role requester \<noteq> ''admin''
          then (fail 403 ''Not authorized to add members'', d)
          else (case find (\<lambda>m. m_user m = userId) (p_members p) of
                  Some existingMember \<Rightarrow>
                    (fail 400 ''User is already a member of this project'', d)
                | None \<Rightarrow>
                    (case castObjectId userId of
                       None \<Rightarrow> (fail 500 ''Error adding member'', d)
                     | Some user \<Rightarrow>
                         (let p' = p\<lparr>p_members := p_members p @
                                       [\<lparr>m_user = user, m_role = role, m_joinedAt = now\<rparr>]\<rparr>
                          in if project_valid p'
                             then (ok 200 ''Member added successfully'' (Some (p_members p')),
                                   d\<lparr>projects := save p_id (ProjectSchema_pre_save False now p')
                                                    (projects d)\<rparr>)
                             else (fail 500 ''Error adding member'', d)))))"

definition removeMember ::
  "db \<Rightarrow> user \<Rightarrow> string \<Rightarrow> string \<Rightarrow> date \<Rightarrow> unit response \<times> db" where
  "removeMember d requester pid userId now =
     (if cast_fails pid then (fail 500 ''Error removing member'', d)
      else case findById p_id (projects d) pid of
        None \<Rightarrow> (fail 404 ''Project not found'', d)
      | Some p \<Rightarrow>
          if p_owner p \<noteq> u_id requester \<and> u_role requester \<noteq> ''admin''
          then (fail 403 ''Not authorized to remove members'', d)
          else if userId = p_owner p
          then (fail 400 ''Cannot remove the project owner'', d)
          else (let p' = p\<lparr>p_members := filter (\<lambda>m. m_user m \<noteq> userId) (p_members p)\<rparr>
                in if project_valid p'
                   then (ok 200 ''Member removed successfully'' None,
                         d\<lparr>projects := save p_id (ProjectSchema_pre_save False now p')
                                          (projects d)\<rparr>)
                   else (fail 500 ''Error removing member'', d)))"

section \<open>Queries: sorting, skipping, limiting, pagination\<close>

text \<open>
  \<open>.sort({field: 1 | -1})\<close> orders documents by one field. A sort key is a triple that
  orders as the store orders values of different types: a missing value first, then
  numbers and dates, then strings (byte order). A field the model does not carry
  (\<open>updatedAt\<close>, or an unknown name) gives every document the same key, which leaves the
  documents in the store's order. No property below depends on the order of documents with
  equal keys, which the store does not fix.
\<close>

type_synonym sort_value = "nat \<times> int \<times> string"

definition key_null :: sort_value where
  "key_null = (0, 0, [])"

definition key_num :: "int \<Rightarrow> sort_value" where
  "key_num n = (1, n, [])"

definition key_str :: "string \<Rightarrow> sort_value" where
  "key_str s = (2, 0, s)"

definition key_opt_num :: "int option \<Rightarrow> sort_value" where
  "key_opt_num v = (case v of None \<Rightarrow> key_null | Some n \<Rightarrow> key_num n)"

definition sort_docs :: "('a \<Rightarrow> sort_value) \<Rightarrow> bool \<Rightarrow> 'a list \<Rightarrow> 'a list" where
  "sort_docs k ascending xs = (if ascending then sort_key k xs else rev (sort_key k xs))"

text \<open>
  \<open>.skip(skip).limit(limitNum)\<close>: the store refuses a negative skip (the handler's
  \<open>catch\<close> answers 500); a limit of 0 is no limit; for a negative limit the driver
  asks for its absolute value.
\<close>

definition skip_limit :: "int \<Rightarrow> int \<Rightarrow> 'a list \<Rightarrow> 'a list option" where
  "skip_limit skip limitNum xs =
     (if skip < 0 then None
      else Some (if limitNum = 0 then drop (nat skip) xs
                 else take (nat \<bar>limitNum\<bar>) (drop (nat skip) xs)))"

text \<open>
  The pagination object of a list response. \<open>Math.ceil(total / limitNum)\<close> is not a
  finite number when \<open>limitNum\<close> is 0, and JSON writes it as \<open>null\<close>: \<open>pg_pages\<close> is
  \<open>None\<close> then. \<open>pg_hasNext\<close> and \<open>pg_hasPrev\<close> are \<open>None\<close> when the object has no
  such key.
\<close>

record pagination =
  pg_current :: int
  pg_pages :: "int option"
  pg_total :: int
  pg_limit :: int
  pg_hasNext :: "bool option"
  pg_hasPrev :: "bool option"

record 'a page =
  items :: "'a list"
  paging :: pagination

definition pages_of :: "int \<Rightarrow> int \<Rightarrow> int option" where
  "pages_of tot limitNum =
     (if limitNum = 0 then None
      else Some \<lceil>(of_int tot :: real) / of_int limitNum\<rceil>)"

definition paging_of :: "'a page response \<Rightarrow> pagination option" where
  "paging_of r = map_option paging (data r)"

text \<open>The object that \<open>getProjects\<close>, \<open>getTasks\<close> (and \<open>getUsers\<close>) build.\<close>

definition pagination_full :: "int \<Rightarrow> int \<Rightarrow> int \<Rightarrow> pagination" where
  "pagination_full pageNum limitNum tot =
     \<lparr>pg_current = pageNum,
      pg_pages = pages_of tot limitNum,
      pg_total = tot,
      pg_limit = limitNum,
      pg_hasNext = Some (pageNum * limitNum < tot),
      pg_hasPrev = Some (pageNum > 1)\<rparr>"

text \<open>The object that \<open>getComments\<close> builds: four keys.\<close>

definition pagination_short :: "int \<Rightarrow> int \<Rightarrow> int \<Rightarrow> pagination" where
  "pagination_short pageNum limitNum tot =
     \<lparr>pg_current = pageNum,
      pg_pages = pages_of tot limitNum,
      pg_total = tot,
      pg_limit = limitNum,
      pg_hasNext = None,
      pg_hasPrev = None\<rparr>"

text \<open>
  A search over several texts of a document, \<open>{$or: [{f: {$regex: s, $options: 'i'}}, ...]}\<close>:
  some text matches the pattern. (A refused pattern makes the handler throw before any
  document is read: see \<open>project_query_throws\<close> and \<open>task_query_throws\<close>.)
\<close>

definition search_hit :: "env \<Rightarrow> string \<Rightarrow> string list \<Rightarrow> bool" where
  "search_hit e s texts =
     (case env_regex e s of
        None \<Rightarrow> False
      | Some matches \<Rightarrow> list_ex matches texts)"

subsection \<open>getProjects\<close>

text \<open>
  The query string, with \<open>page\<close> and \<open>limit\<close> as \<open>parseInt(_, 10)\<close> reads them (the
  routes of the project and task lists admit only integers from 1 on; the comment list
  has no such check).
\<close>

record project_query =
  pq_page :: "int option"
  pq_limit :: "int option"
  pq_search :: "string option"
  pq_status :: "string option"
  pq_priority :: "string option"
  pq_sortBy :: "string option"
  pq_sortOrder :: "string option"
  pq_archived :: "string option"

record task_stats =
  st_total :: nat
  st_todo :: nat
  st_in_progress :: nat
  st_in_review :: nat
  st_completed :: nat

record project_with_stats =
  ps_project :: project
  ps_taskStats :: task_stats
  ps_progress :: int

definition count_status :: "string \<Rightarrow> task list \<Rightarrow> nat" where
  "count_status s ts = length (filter (\<lambda>t. t_status t = s) ts)"

definition with_stats :: "task list \<Rightarrow> project \<Rightarrow> project_with_stats" where
  "with_stats all_tasks p =
     (let ts = filter (\<lambda>t. t_project t = p_id p \<and> \<not> t_isArchived t) all_tasks;
          stats = \<lparr>st_total = length ts,
                   st_todo = count_status ''todo'' ts,
                   st_in_progress = count_status ''in-progress'' ts,
                   st_in_review = count_status ''in-review'' ts,
                   st_completed = count_status ''completed'' ts\<rparr>
      in \<lparr>ps_project = p,
          ps_taskStats = stats,
          ps_progress =
            (if st_total stats > 0
             then round ((of_nat (st_completed stats) :: real) / of_nat (st_total stats) * 100)
             else 0)\<rparr>)"

definition option_text :: "string option \<Rightarrow> string list" where
  "option_text v = (case v of None \<Rightarrow> [] | Some s \<Rightarrow> [s])"

definition project_matches :: "env \<Rightarrow> user \<Rightarrow> project_query \<Rightarrow> project \<Rightarrow> bool" where
  "project_matches e requester q p =
     ((p_owner p = u_id requester \<or> list_ex (\<lambda>m. m_user m = u_id requester) (p_members p))
      \<and> p_isArchived p = (or_default_undef (pq_archived q) ''false'' = ''true'')
      \<and> (if truthy (pq_search q)
          then search_hit e (or_default (pq_search q) [])
                 (p_name p # option_text (p_description p) @ p_tags p)
          else True)
      \<and> (if truthy (pq_status q) then Some (p_status p) = pq_status q else True)
      \<and> (if truthy (pq_priority q) then Some (p_priority p) = pq_priority q else True))"

text \<open>The requests on which building or running the query throws: a search pattern
  that is refused, or a sort key that the store does not take.\<close>

definition project_query_throws :: "env \<Rightarrow> project_query \<Rightarrow> bool" where
  "project_query_throws e q =
     ((truthy (pq_search q) \<and> env_regex e (or_default (pq_search q) []) = None)
      \<or> \<not> sortable e (or_default_undef (pq_sortBy q) ''updatedAt''))"

definition project_sort_key :: "string \<Rightarrow> project \<Rightarrow> sort_value" where
  "project_sort_key f p =
     (if f = ''createdAt'' then key_num (p_createdAt p)
      else if f = ''startDate'' then key_num (p_startDate p)
      else if f = ''dueDate'' then key_opt_num (p_dueDate p)
      else if f = ''completedAt'' then key_opt_num (p_completedAt p)
      else if f = ''name'' then key_str (p_name p)
      else if f = ''status'' then key_str (p_status p)
      else if f = ''priority'' then key_str (p_priority p)
      else key_null)"

definition getProjects ::
  "env \<Rightarrow> db \<Rightarrow> user \<Rightarrow> project_query \<Rightarrow> project_with_stats page response" where
  "getProjects e d requester q =
     (let pageNum = set_opt (pq_page q) 1;
          limitNum = set_opt (pq_limit q) 10;
          skip = (pageNum - 1) * limitNum;
          found = filter (project_matches e requester q) (projects d);
          sorted = sort_docs (project_sort_key (or_default_undef (pq_sortBy q) ''updatedAt''))
                     (or_default_undef (pq_sortOrder q) ''desc'' = ''asc'') found;
          tot = int (length found)
      in if project_query_throws e q then fail 500 ''Error fetching projects''
         else case skip_limit skip limitNum sorted of
           None \<Rightarrow> fail 500 ''Error fetching projects''
         | Some ps \<Rightarrow>
             ok 200 [] (Some \<lparr>items = map (with_stats (tasks d)) ps,
                               paging = pagination_full pageNum limitNum tot\<rparr>))"

section \<open>Task model and controller\<close>

definition task_statuses :: "string list" where
  "task_statuses = [''todo'', ''in-progress'', ''in-review'', ''completed'']"

text \<open>The validators of \<open>SubtaskSchema\<close> and \<open>TaskSchema\<close>.\<close>

definition subtask_valid :: "subtask \<Rightarrow> bool" where
  "subtask_valid s = (s_title s \<noteq> [] \<and> length (s_title s) \<le> 200)"

definition task_valid :: "task \<Rightarrow> bool" where
  "task_valid t =
     (t_title t \<noteq> [] \<and> length (t_title t) \<le> 200
      \<and> description_valid 5000 (t_description t)
      \<and> t_status t \<in> set task_statuses
      \<and> t_priority t \<in> set priorities
      \<and> 0 \<le> t_estimatedHours t
      \<and> 0 \<le> t_actualHours t
      \<and> list_all subtask_valid (t_subtasks t))"

text \<open>
  \<open>TaskSchema.pre('save')\<close>. \<open>status_modified\<close> is \<open>this.isModified('status')\<close>: the
  status was assigned a value other than the stored one, or the document is new and was
  given a status.
\<close>

definition TaskSchema_pre_save :: "bool \<Rightarrow> date \<Rightarrow> task \<Rightarrow> task" where
  "TaskSchema_pre_save status_modified now t =
     (if status_modified
      then (if t_status t = ''completed'' \<and> t_completedAt t = None
            then t\<lparr>t_completedAt := Some now\<rparr>
            else if t_status t \<noteq> ''completed''
            then t\<lparr>t_completedAt := None\<rparr>
            else t)
      else t)"

subsection \<open>The Number nearest to an integer\<close>

text \<open>
  \<open>order\<close> is a \<open>Number\<close>: a double. An integer of at most 53 binary digits is a Number.
  A longer one is not, in general: arithmetic and the reading of a request give the
  nearest Number, which keeps the 53 leading digits, rounded to nearest with ties to the
  even neighbour. \<open>bit_len n\<close> is the number of binary digits of \<open>n\<close>. (The
  overflow to \<open>Infinity\<close>, from \<open>2 ^ 1024\<close> on, is outside the model.)
\<close>

fun bit_len :: "nat \<Rightarrow> nat" where
  "bit_len n = (if n = 0 then 0 else Suc (bit_len (n div 2)))"

declare bit_len.simps [simp del]

definition to_double :: "int \<Rightarrow> int" where
  "to_double m =
     (let a = \<bar>m\<bar>;
          k = bit_len (nat a)
      in if k \<le> 53 then m
         else (let u = 2 ^ (k - 53);
                   q = a div u;
                   r = a mod u;
                   h = u div 2;
                   rounded = (if r < h then q
                              else if h < r then q + 1
                              else if even q then q else q + 1)
               in sgn m * (rounded * u)))"

subsection \<open>getTasks\<close>

record task_query =
  tq_page :: "int option"
  tq_limit :: "int option"
  tq_project :: "string option"
  tq_status :: "string option"
  tq_priority :: "string option"
  tq_assignee :: "string option"
  tq_search :: "string option"
  tq_sortBy :: "string option"
  tq_sortOrder :: "string option"
  tq_dueDate :: "string option"
  tq_overdue :: "string option"

text \<open>\<open>status.split(',')\<close>.\<close>

fun split_comma :: "string \<Rightarrow> string list" where
  "split_comma [] = [[]]"
| "split_comma (c # cs) =
     (if c = CHR '','' then [] # split_comma cs
      else (case split_comma cs of [] \<Rightarrow> [[c]] | w # ws \<Rightarrow> (c # w) # ws))"

text \<open>
  The day of the \<open>dueDate\<close> filter, \<open>setHours(0, 0, 0, 0)\<close> to
  \<open>setHours(23, 59, 59, 999)\<close>, with the server's clock on UTC.
\<close>

definition day_start :: "date \<Rightarrow> date" where
  "day_start x = x - x mod 86400000"

definition day_end :: "date \<Rightarrow> date" where
  "day_end x = day_start x + 86399999"

text \<open>
  The filter that the handler builds key by key. The \<open>overdue\<close> branch comes last and
  overwrites the \<open>dueDate\<close> and \<open>status\<close> keys of the query. The store casts the
  \<open>project\<close> and \<open>assignee\<close> of the query to ObjectIds. The fields of the query
  are strings, as a query string has them that gives each key once and without brackets;
  \<open>tq_page\<close> and \<open>tq_limit\<close> are the Numbers that \<open>parseInt\<close> reads from theirs.
\<close>

definition task_matches :: "env \<Rightarrow> user \<Rightarrow> task_query \<Rightarrow> date \<Rightarrow> task \<Rightarrow> bool" where
  "task_matches e requester q now t =
     (\<not> t_isArchived t
      \<and> (if truthy (tq_project q)
          then Some (t_project t) = castObjectId (or_default (tq_project q) [])
          else True)
      \<and> (if tq_overdue q = Some ''true'' then t_status t \<noteq> ''completed''
          else if truthy (tq_status q)
          then t_status t \<in> set (split_comma (or_default (tq_status q) []))
          else True)
      \<and> (if truthy (tq_priority q) then Some (t_priority t) = tq_priority q else True)
      \<and> (if truthy (tq_assignee q)
          then (if tq_assignee q = Some ''me'' then t_assignee t = Some (u_id requester)
                else if tq_assignee q = Some ''unassigned'' then t_assignee t = None
                else (case castObjectId (or_default (tq_assignee q) []) of
                        None \<Rightarrow> False
                      | Some a \<Rightarrow> t_assignee t = Some a))
          else True)
      \<and> (if truthy (tq_search q)
          then search_hit e (or_default (tq_search q) [])
                 (t_title t # option_text (t_description t) @ t_tags t)
          else True)
      \<and> (if tq_overdue q = Some ''true''
          then (case t_dueDate t of None \<Rightarrow> False | Some due \<Rightarrow> due < now)
          else if truthy (tq_dueDate q)
          then (case env_parseDate e (or_default (tq_dueDate q) []) of
                  None \<Rightarrow> False
                | Some day \<Rightarrow>
                    (case t_dueDate t of
                       None \<Rightarrow> False
                     | Some due \<Rightarrow> day_start day \<le> due \<and> due < day_end day))
          else True))"

text \<open>
  The requests on which building or running the query throws, so that the handler's
  \<open>catch\<close> answers 500: a search pattern that is refused (\<open>new RegExp(search, 'i')\<close>), a
  \<open>project\<close> or an \<open>assignee\<close> (other than \<open>me\<close> and \<open>unassigned\<close>) that is no
  ObjectId, a \<open>dueDate\<close> that is no date (unless the \<open>overdue\<close> branch overwrites the
  key), a sort key that the store does not take.
\<close>

definition task_query_throws :: "env \<Rightarrow> task_query \<Rightarrow> bool" where
  "task_query_throws e q =
     ((truthy (tq_search q) \<and> env_regex e (or_default (tq_search q) []) = None)
      \<or> (truthy (tq_project q) \<and> cast_fails (or_default (tq_project q) []))
      \<or> (truthy (tq_assignee q) \<and> tq_assignee q \<noteq> Some ''me''
          \<and> tq_assignee q \<noteq> Some ''unassigned''
          \<and> cast_fails (or_default (tq_assignee q) []))
      \<or> (truthy (tq_dueDate q) \<and> tq_overdue q \<noteq> Some ''true''
          \<and> env_parseDate e (or_default (tq_dueDate q) []) = None)
      \<or> \<not> sortable e (or_default_undef (tq_sortBy q) ''createdAt''))"

definition task_sort_key :: "string \<Rightarrow> task \<Rightarrow> sort_value" where
  "task_sort_key f t =
     (if f = ''createdAt'' then key_num (t_createdAt t)
      else if f = ''order'' then key_num (t_order t)
      else if f = ''startDate'' then key_opt_num (t_startDate t)
      else if f = ''dueDate'' then key_opt_num (t_dueDate t)
      else if f = ''completedAt'' then key_opt_num (t_completedAt t)
      else if f = ''estimatedHours'' then key_num (t_estimatedHours t)
      else if f = ''actualHours'' then key_num (t_actualHours t)
      else if f = ''title'' then key_str (t_title t)
      else if f = ''status'' then key_str (t_status t)
      else if f = ''priority'' then key_str (t_priority t)
      else key_null)"

definition getTasks :: "env \<Rightarrow> db \<Rightarrow> user \<Rightarrow> task_query \<Rightarrow> date \<Rightarrow> task page response" where
  "getTasks e d requester q now =
     (let pageNum = set_opt (tq_page q) 1;
          limitNum = set_opt (tq_limit q) 20;
          skip = (pageNum - 1) * limitNum;
          found = filter (task_matches e requester q now) (tasks d);
          sorted = sort_docs (task_sort_key (or_default_undef (tq_sortBy q) ''createdAt''))
                     (or_default_undef (tq_sortOrder q) ''desc'' = ''asc'') found;
          tot = int (length found)
      in if task_query_throws e q then fail 500 ''Error fetching tasks''
         else case skip_limit skip limitNum sorted of
           None \<Rightarrow> fail 500 ''Error fetching tasks''
         | Some ts \<Rightarrow>
             ok 200 [] (Some \<lparr>items = ts,
                               paging = pagination_full pageNum limitNum tot\<rparr>))"

subsection \<open>createTask\<close>

record subtask_input =
  si_title :: string
  si_isCompleted :: "bool option"

record task_input =
  ti_title :: string
  ti_description :: "string option"
  ti_project :: string
  ti_status :: "string option"
  ti_priority :: "string option"
  ti_assignee :: "string option"
  ti_startDate :: "date option"
  ti_dueDate :: "date option"
  ti_estimatedHours :: "int option"
  ti_tags :: "string list option"
  ti_subtasks :: "subtask_input list option"

text \<open>
  A subdocument of the \<open>subtasks\<close> array gets an \<open>_id\<close> of its own. \<open>fresh\<close> lists the
  ObjectIds that the driver generates for this request: \<open>fresh 0\<close> for the task,
  \<open>fresh (i + 1)\<close> for the subtask at index \<open>i\<close>.
\<close>

definition cast_subtasks :: "(nat \<Rightarrow> objectId) \<Rightarrow> subtask_input list \<Rightarrow> subtask list" where
  "cast_subtasks fresh sis =
     map (\<lambda>(i, si). \<lparr>s_id = fresh (i + 1),
                      s_title = si_title si,
                      s_isCompleted = set_opt (si_isCompleted si) False,
                      s_completedAt = None\<rparr>)
         (zip [0 ..< length sis] sis)"

text \<open>
  \<open>Task.findOne({project, status}).sort({order: -1}).select('order')\<close>: a task of the
  column with the greatest \<open>order\<close> (the first such task in store order), or \<open>null\<close> for an
  empty column.
\<close>

fun highest_order :: "task list \<Rightarrow> task option" where
  "highest_order [] = None"
| "highest_order (t # ts) =
     (case highest_order ts of
        None \<Rightarrow> Some t
      | Some h \<Rightarrow> if t_order h > t_order t then Some h else Some t)"

definition column :: "db \<Rightarrow> objectId \<Rightarrow> string \<Rightarrow> task list" where
  "column d pid st = filter (\<lambda>t. t_project t = pid \<and> t_status t = st) (tasks d)"

text \<open>\<open>highestOrder ? highestOrder.order + 1 : 0\<close>, with the sum of two Numbers.\<close>

definition next_order :: "task option \<Rightarrow> int" where
  "next_order highestOrder =
     (case highestOrder of
        Some h \<Rightarrow> to_double (t_order h + 1)
      | None \<Rightarrow> 0)"

definition createTask ::
  "db \<Rightarrow> user \<Rightarrow> task_input \<Rightarrow> (nat \<Rightarrow> objectId) \<Rightarrow> date \<Rightarrow> task response \<times> db" where
  "createTask d requester body fresh now =
     (if cast_fails (ti_project body) then (fail 500 ''Error creating task'', d)
      else case findById p_id (projects d) (ti_project body) of
        None \<Rightarrow> (fail 404 ''Project not found'', d)
      | Some projectDoc \<Rightarrow>
          if \<not> isMember projectDoc (u_id requester)
          then (fail 403 ''Not authorized to create tasks in this project'', d)
          else (case cast_optional (ti_assignee body) of
                  None \<Rightarrow> (fail 500 ''Error creating task'', d)
                | Some assignee \<Rightarrow>
                    (let highestOrder =
                           highest_order (column d (p_id projectDoc)
                                            (or_default (ti_status body) ''todo''));
                         t = \<lparr>t_id = fresh 0,
                              t_title = ti_title body,
                              t_description = ti_description body,
                              t_status = or_default (ti_status body) ''todo'',
                              t_priority = or_default (ti_priority body) ''medium'',
                              t_project = p_id projectDoc,
                              t_creator = u_id requester,
                              t_assignee = assignee,
                              t_subtasks = cast_subtasks fresh
                                 (case ti_subtasks body of None \<Rightarrow> [] | Some ss \<Rightarrow> ss),
                              t_startDate = ti_startDate body,
                              t_dueDate = ti_dueDate body,
                              t_completedAt = None,
                              t_estimatedHours = set_opt (ti_estimatedHours body) 0,
                              t_actualHours = 0,
                              t_tags = (case ti_tags body of None \<Rightarrow> [] | Some ts \<Rightarrow> ts),
                              t_order = next_order highestOrder,
                              t_watchers = [u_id requester],
                              t_isArchived = False,
                              t_createdAt = now\<rparr>
                     in if task_valid t
                        then (let t' = TaskSchema_pre_save True now t
                              in (ok 201 ''Task created successfully'' (Some t'),
                                  d\<lparr>tasks := tasks d @ [t']\<rparr>))
                        else (fail 500 ''Error creating task'', d))))"

subsection \<open>updateTask\<close>

text \<open>The body of the request; its \<open>order\<close> is the integer that the request writes, which
  the handler reads as the nearest Number.\<close>

record task_update =
  tu_title :: "string option"
  tu_description :: "string option"
  tu_status :: "string option"
  tu_priority :: "string option"
  tu_assignee :: "string option"
  tu_startDate :: "date option"
  tu_dueDate :: "date option"
  tu_estimatedHours :: "int option"
  tu_actualHours :: "int option"
  tu_tags :: "string list option"
  tu_order :: "int option"
  tu_isArchived :: "bool option"

definition apply_task_update :: "task_update \<Rightarrow> objectId option \<Rightarrow> task \<Rightarrow> task" where
  "apply_task_update u assignee t =
     t\<lparr>t_title := set_opt (tu_title u) (t_title t),
       t_description := set_opt_field (tu_description u) (t_description t),
       t_status := set_opt (tu_status u) (t_status t),
       t_priority := set_opt (tu_priority u) (t_priority t),
       t_assignee := set_opt_field assignee (t_assignee t),
       t_startDate := set_opt_field (tu_startDate u) (t_startDate t),
       t_dueDate := set_opt_field (tu_dueDate u) (t_dueDate t),
       t_estimatedHours := set_opt (tu_estimatedHours u) (t_estimatedHours t),
       t_actualHours := set_opt (tu_actualHours u) (t_actualHours t),
       t_tags := set_opt (tu_tags u) (t_tags t),
       t_order := set_opt (map_option to_double (tu_order u)) (t_order t),
       t_isArchived := set_opt (tu_isArchived u) (t_isArchived t)\<rparr>"

text \<open>
  \<open>Task.findByIdAndUpdate(id, updateData, {new: true, runValidators: true})\<close> writes the
  given fields to the stored document. It is a query, not a \<open>save\<close>: the
  \<open>pre('save')\<close> middleware of the schema does not run.
\<close>

definition updateTask :: "db \<Rightarrow> string \<Rightarrow> task_update \<Rightarrow> task response \<times> db" where
  "updateTask d tid body =
     (if cast_fails tid then (fail 500 ''Error updating task'', d)
      else case findById t_id (tasks d) tid of
        None \<Rightarrow> (fail 404 ''Task not found'', d)
      | Some t \<Rightarrow>
          (case cast_optional (tu_assignee body) of
             None \<Rightarrow> (fail 500 ''Error updating task'', d)
           | Some assignee \<Rightarrow>
               (let t' = apply_task_update body assignee t
                in if task_valid t'
                   then (ok 200 ''Task updated successfully'' (Some t'),
                         d\<lparr>tasks := save t_id t' (tasks d)\<rparr>)
                   else (fail 500 ''Error updating task'', d))))"

subsection \<open>updateTaskStatus\<close>

definition updateTaskStatus ::
  "db \<Rightarrow> string \<Rightarrow> string \<Rightarrow> int option \<Rightarrow> date \<Rightarrow> task response \<times> db" where
  "updateTaskStatus d tid new_status new_order now =
     (if cast_fails tid then (fail 500 ''Error updating task status'', d)
      else case findById t_id (tasks d) tid of
        None \<Rightarrow> (fail 404 ''Task not found'', d)
      | Some t \<Rightarrow>
          (let t1 = t\<lparr>t_status := new_status\<rparr>;
               t2 = (case new_order of None \<Rightarrow> t1 | Some n \<Rightarrow> t1\<lparr>t_order := to_double n\<rparr>)
           in if task_valid t2
              then (let t' = TaskSchema_pre_save (new_status \<noteq> t_status t) now t2
                    in (ok 200 ''Task status updated'' (Some t'),
                        d\<lparr>tasks := save t_id t' (tasks d)\<rparr>))
              else (fail 500 ''Error updating task status'', d)))"

subsection \<open>toggleSubtask\<close>

text \<open>\<open>task.subtasks.id(subtaskId)\<close>: the first subdocument whose \<open>_id\<close> is the cast of
  \<open>subtaskId\<close>, or \<open>null\<close> (also when the cast fails). The handler changes that
  subdocument in place.\<close>

definition subtasks_id :: "subtask list \<Rightarrow> string \<Rightarrow> subtask option" where
  "subtasks_id ss sid =
     (case castObjectId sid of
        None \<Rightarrow> None
      | Some c \<Rightarrow> find (\<lambda>s. s_id s = c) ss)"

definition toggle :: "date \<Rightarrow> subtask \<Rightarrow> subtask" where
  "toggle now s =
     (let s1 = s\<lparr>s_isCompleted := \<not> s_isCompleted s\<rparr>
      in s1\<lparr>s_completedAt := (if s_isCompleted s1 then Some now else None)\<rparr>)"

definition toggleSubtask ::
  "db \<Rightarrow> string \<Rightarrow> string \<Rightarrow> date \<Rightarrow> subtask list response \<times> db" where
  "toggleSubtask d tid subtaskId now =
     (if cast_fails tid then (fail 500 ''Error toggling subtask'', d)
      else case findById t_id (tasks d) tid of
        None \<Rightarrow> (fail 404 ''Task not found'', d)
      | Some t \<Rightarrow>
          (case subtasks_id (t_subtasks t) subtaskId of
             None \<Rightarrow> (fail 404 ''Subtask not found'', d)
           | Some subtask \<Rightarrow>
               (let t1 = t\<lparr>t_subtasks := update_first (\<lambda>s. s_id s = s_id subtask) (toggle now)
                                            (t_subtasks t)\<rparr>
                in if task_valid t1
                   then (let t' = TaskSchema_pre_save False now t1
                         in (ok 200 ''Subtask toggled'' (Some (t_subtasks t')),
                             d\<lparr>tasks := save t_id t' (tasks d)\<rparr>))
                   else (fail 500 ''Error toggling subtask'', d))))"

section \<open>Comment model and controller\<close>

definition tombstone :: string where
  "tombstone = ''[This comment has been deleted]''"

definition comment_valid :: "comment \<Rightarrow> bool" where
  "comment_valid c = (c_content c \<noteq> [] \<and> length (c_content c) \<le> 2000)"

text \<open>\<open>CommentSchema.pre('save')\<close>: a stored comment whose content was modified is
  marked as edited.\<close>

definition CommentSchema_pre_save :: "bool \<Rightarrow> bool \<Rightarrow> date \<Rightarrow> comment \<Rightarrow> comment" where
  "CommentSchema_pre_save content_modified is_new now c =
     (if content_modified \<and> \<not> is_new
      then c\<lparr>c_isEdited := True, c_editedAt := Some now\<rparr>
      else c)"

subsection \<open>getComments\<close>

record comment_query =
  cq_page :: "int option"
  cq_limit :: "int option"

record comment_with_replies =
  cr_comment :: comment
  cr_replies :: "comment list"

text \<open>
  \<open>populate({path: 'replies', match: {isDeleted: false}, options: {sort: {createdAt: 1}}})\<close>:
  the virtual \<open>replies\<close> of a comment are the comments whose \<open>parentComment\<close> is its
  \<open>_id\<close>; the match keeps those that are not deleted.
\<close>

definition populate_replies :: "comment list \<Rightarrow> comment \<Rightarrow> comment_with_replies" where
  "populate_replies all_comments c =
     \<lparr>cr_comment = c,
      cr_replies = sort_docs (\<lambda>r. key_num (c_createdAt r)) True
         (filter (\<lambda>r. c_parentComment r = Some (c_id c) \<and> \<not> c_isDeleted r) all_comments)\<rparr>"

text \<open>The top-level comments of a task that are not deleted: the filter of the listing
  and of its count.\<close>

definition top_level :: "objectId \<Rightarrow> comment \<Rightarrow> bool" where
  "top_level task c = (c_task c = task \<and> \<not> c_isDeleted c \<and> c_parentComment c = None)"

definition getComments ::
  "db \<Rightarrow> string \<Rightarrow> comment_query \<Rightarrow> comment_with_replies page response" where
  "getComments d taskId q =
     (case castObjectId taskId of
        None \<Rightarrow> fail 500 ''Error fetching comments''
      | Some task \<Rightarrow>
          (case findById t_id (tasks d) taskId of
             None \<Rightarrow> fail 404 ''Task not found''
           | Some task_doc \<Rightarrow>
               (let pageNum = set_opt (cq_page q) 1;
                    limitNum = set_opt (cq_limit q) 20;
                    skip = (pageNum - 1) * limitNum;
                    found = filter (top_level task) (comments d);
                    sorted = sort_docs (\<lambda>c. key_num (c_createdAt c)) False found;
                    tot = int (length found)
                in case skip_limit skip limitNum sorted of
                     None \<Rightarrow> fail 500 ''Error fetching comments''
                   | Some cs \<Rightarrow>
                       ok 200 [] (Some \<lparr>items = map (populate_replies (comments d)) cs,
                                         paging = pagination_short pageNum limitNum tot\<rparr>))))"

text \<open>The identifiers of the replies that a listing attaches, one list per top-level
  comment of the page.\<close>

definition reply_ids :: "comment_with_replies page response \<Rightarrow> objectId list list" where
  "reply_ids r =
     (case data r of
        None \<Rightarrow> []
      | Some pg \<Rightarrow> map (\<lambda>e. map c_id (cr_replies e)) (items pg))"

definition listed_ids :: "comment_with_replies page response \<Rightarrow> objectId list" where
  "listed_ids r =
     (case data r of
        None \<Rightarrow> []
      | Some pg \<Rightarrow> map (\<lambda>e. c_id (cr_comment e)) (items pg))"

subsection \<open>createComment\<close>

definition createComment ::
  "db \<Rightarrow> user \<Rightarrow> string \<Rightarrow> string \<Rightarrow> string option \<Rightarrow> string list option
     \<Rightarrow> objectId \<Rightarrow> date \<Rightarrow> comment response \<times> db" where
  "createComment d requester content taskId parentCommentId mentions oid now =
     (case castObjectId taskId of
        None \<Rightarrow> (fail 500 ''Error creating comment'', d)
      | Some task \<Rightarrow>
          (case findById t_id (tasks d) taskId of
             None \<Rightarrow> (fail 404 ''Task not found'', d)
           | Some task_doc \<Rightarrow>
               if truthy parentCommentId \<and> cast_fails (or_default parentCommentId [])
               then (fail 500 ''Error creating comment'', d)
               else if truthy parentCommentId
                  \<and> findById c_id (comments d) (or_default parentCommentId []) = None
               then (fail 404 ''Parent comment not found'', d)
               else (case those (map castObjectId
                                   (case mentions of None \<Rightarrow> [] | Some ms \<Rightarrow> ms)) of
                       None \<Rightarrow> (fail 500 ''Error creating comment'', d)
                     | Some mentioned \<Rightarrow>
                         (let c = \<lparr>c_id = oid,
                                   c_content = content,
                                   c_task = task,
                                   c_author = u_id requester,
                                   c_mentions = mentioned,
                                   c_isEdited = False,
                                   c_editedAt = None,
                                   c_parentComment =
                                      (if truthy parentCommentId
                                       then castObjectId (or_default parentCommentId [])
                                       else None),
                                   c_reactions = [],
                                   c_isDeleted = False,
                                   c_createdAt = now\<rparr>
                          in if comment_valid c
                             then (let c' = CommentSchema_pre_save True True now c
                                   in (ok 201 ''Comment added'' (Some c'),
                                       d\<lparr>comments := comments d @ [c']\<rparr>))
                             else (fail 500 ''Error creating comment'', d)))))"

subsection \<open>deleteComment\<close>

definition deleteComment :: "db \<Rightarrow> user \<Rightarrow> string \<Rightarrow> date \<Rightarrow> unit response \<times> db" where
  "deleteComment d requester cid now =
     (if cast_fails cid then (fail 500 ''Error deleting comment'', d)
      else case findById c_id (comments d) cid of
        None \<Rightarrow> (fail 404 ''Comment not found'', d)
      | Some c \<Rightarrow>
          if c_author c \<noteq> u_id requester \<and> u_role requester \<noteq> ''admin''
          then (fail 403 ''Not authorized to delete this comment'', d)
          else (let c1 = c\<lparr>c_isDeleted := True, c_content := tombstone\<rparr>;
                    c' = CommentSchema_pre_save (c_content c \<noteq> tombstone) False now c1
                in (ok 200 ''Comment deleted'' None,
                    d\<lparr>comments := save c_id c' (comments d)\<rparr>)))"

section \<open>Authentication controller: register\<close>

text \<open>
  The route of \<open>register\<close> checks \<open>name\<close>, \<open>email\<close>, \<open>password\<close> and \<open>department\<close>;
  \<open>phone\<close> and \<open>role\<close> reach the handler as the body has them, any JSON value. A JSON
  number is kept as the text that its \<open>toString()\<close> prints (\<open>0\<close> for zero); an object is
  the list of its keys, each once, with their values.
\<close>

datatype json =
  JNull
  | JBool bool
  | JNum string
  | JStr string
  | JArr "json list"
  | JObj "(string \<times> json) list"

text \<open>\<open>if (v)\<close> on an optional JSON value: \<open>undefined\<close>, \<open>null\<close>, \<open>false\<close>, \<open>0\<close> and
  \<open>''\<close> are falsy.\<close>

fun json_truthy :: "json option \<Rightarrow> bool" where
  "json_truthy None = False"
| "json_truthy (Some JNull) = False"
| "json_truthy (Some (JBool b)) = b"
| "json_truthy (Some (JNum t)) = (t \<noteq> ''0'')"
| "json_truthy (Some (JStr s)) = (s \<noteq> [])"
| "json_truthy (Some (JArr xs)) = True"
| "json_truthy (Some (JObj kvs)) = True"

text \<open>
  The cast of a value to a path of type \<open>String\<close>, as Mongoose applies it: \<open>null\<close> stays
  \<open>null\<close>; an object with a string under \<open>_id\<close> is cast to that string; a string, a
  number and a boolean are cast with \<open>toString()\<close>; an array and any other object throw.
\<close>

datatype cast = Throws | Unset | Text string

fun castString :: "json \<Rightarrow> cast" where
  "castString JNull = Unset"
| "castString (JBool b) = Text (if b then ''true'' else ''false'')"
| "castString (JNum t) = Text t"
| "castString (JStr s) = Text s"
| "castString (JArr xs) = Throws"
| "castString (JObj kvs) =
     (case map_of kvs ''_id'' of
        Some (JStr s) \<Rightarrow> if s = [] then Throws else Text s
      | _ \<Rightarrow> Throws)"

definition user_roles :: "string list" where
  "user_roles = [''user'', ''manager'', ''admin'']"

record register_input =
  ri_name :: string
  ri_email :: string
  ri_password :: string
  ri_department :: "string option"
  ri_phone :: "json option"
  ri_role :: "json option"

text \<open>
  \<open>role: role === 'admin' ? 'user' : (role || 'user')\<close>: the value that the handler
  passes to \<open>User.create\<close> for the role.
\<close>

definition requested_role :: "json option \<Rightarrow> json" where
  "requested_role role =
     (if role = Some (JStr ''admin'') then JStr ''user''
      else if json_truthy role then (case role of Some v \<Rightarrow> v | None \<Rightarrow> JStr ''user'')
      else JStr ''user'')"

text \<open>
  The validators of \<open>UserSchema\<close> that \<open>User.create\<close> runs. The schema's pattern for
  e-mail addresses is the parameter \<open>email_ok\<close>.
\<close>

definition user_valid :: "(string \<Rightarrow> bool) \<Rightarrow> string \<Rightarrow> user \<Rightarrow> bool" where
  "user_valid email_ok password u =
     (u_name u \<noteq> [] \<and> length (u_name u) \<le> 50
      \<and> u_email u \<noteq> [] \<and> email_ok (u_email u)
      \<and> 6 \<le> length password
      \<and> u_role u \<in> set user_roles)"

text \<open>The \<open>phone\<close> of the new document: absent, or the cast of the value; \<open>None\<close> when
  the cast throws.\<close>

definition cast_phone :: "json option \<Rightarrow> string option option" where
  "cast_phone v =
     (case v of
        None \<Rightarrow> Some None
      | Some j \<Rightarrow>
          (case castString j of
             Throws \<Rightarrow> None
           | Unset \<Rightarrow> Some None
           | Text s \<Rightarrow> Some (Some s)))"

definition register ::
  "(string \<Rightarrow> bool) \<Rightarrow> db \<Rightarrow> register_input \<Rightarrow> objectId \<Rightarrow> user response \<times> db" where
  "register email_ok d body oid =
     (case find (\<lambda>u. u_email u = toLowerCase (ri_email body)) (users d) of
        Some existingUser \<Rightarrow>
          (fail 400 ''An account with this email already exists'', d)
      | None \<Rightarrow>
          (case (castString (requested_role (ri_role body)), cast_phone (ri_phone body)) of
             (Text role, Some phone) \<Rightarrow>
               (let u = \<lparr>u_id = oid,
                         u_name = ri_name body,
                         u_email = toLowerCase (ri_email body),
                         u_role = role,
                         u_department = or_default (ri_department body) ''General'',
                         u_phone = phone,
                         u_isActive = True\<rparr>
                in if user_valid email_ok (ri_password body) u
                   then (ok 201 ''Registration successful'' (Some u),
                         d\<lparr>users := users d @ [u]\<rparr>)
                   else (fail 500 ''Error creating user account'', d))
           | _ \<Rightarrow> (fail 500 ''Error creating user account'', d)))"

section \<open>A small store for concrete runs\<close>

definition ann_id :: objectId where "ann_id = ''a00000000000000000000001''"
definition bob_id :: objectId where "bob_id = ''a00000000000000000000002''"
definition cat_id :: objectId where "cat_id = ''a00000000000000000000003''"
definition eve_id :: objectId where "eve_id = ''a00000000000000000000007''"
definition alpha_id :: objectId where "alpha_id = ''b00000000000000000000001''"
definition beta_id :: objectId where "beta_id = ''b00000000000000000000002''"
definition task1_id :: objectId where "task1_id = ''c00000000000000000000001''"
definition task2_id :: objectId where "task2_id = ''c00000000000000000000002''"
definition task3_id :: objectId where "task3_id = ''c00000000000000000000003''"
definition task4_id :: objectId where "task4_id = ''c00000000000000000000004''"
definition sub1_id :: objectId where "sub1_id = ''d00000000000000000000001''"
definition sub2_id :: objectId where "sub2_id = ''d00000000000000000000002''"
definition note1_id :: objectId where "note1_id = ''e00000000000000000000001''"
definition note2_id :: objectId where "note2_id = ''e00000000000000000000002''"

text \<open>Two identifiers as a request may spell them, with the letter in upper case.\<close>

definition ann_id_upper :: string where "ann_id_upper = ''A00000000000000000000001''"
definition bob_id_upper :: string where "bob_id_upper = ''A00000000000000000000002''"

definition ex_owner :: user where
  "ex_owner = \<lparr>u_id = ann_id, u_name = ''Ann'', u_email = ''ann@x.io'', u_role = ''user'',
     u_department = ''General'', u_phone = None, u_isActive = True\<rparr>"

definition ex_lead :: user where
  "ex_lead = \<lparr>u_id = bob_id, u_name = ''Bob'', u_email = ''bob@x.io'', u_role = ''user'',
     u_department = ''General'', u_phone = None, u_isActive = True\<rparr>"

definition ex_project :: project where
  "ex_project = \<lparr>p_id = alpha_id, p_name = ''Alpha'', p_description = None,
     p_status = ''planning'', p_priority = ''medium'', p_owner = ann_id,
     p_members = [\<lparr>m_user = bob_id, m_role = ''admin'', m_joinedAt = 0\<rparr>],
     p_startDate = 0, p_dueDate = None, p_completedAt = None, p_tags = [],
     p_color = ''#3B82F6'', p_isPublic = False, p_isArchived = False, p_createdAt = 0\<rparr>"

definition ex_task1 :: task where
  "ex_task1 = \<lparr>t_id = task1_id, t_title = ''T1'', t_description = None, t_status = ''todo'',
     t_priority = ''medium'', t_project = alpha_id, t_creator = bob_id, t_assignee = None,
     t_subtasks = [], t_startDate = None, t_dueDate = None, t_completedAt = None,
     t_estimatedHours = 0, t_actualHours = 0, t_tags = [], t_order = 0,
     t_watchers = [bob_id], t_isArchived = False, t_createdAt = 1\<rparr>"

definition ex_task2 :: task where
  "ex_task2 = \<lparr>t_id = task2_id, t_title = ''T2'', t_description = None, t_status = ''todo'',
     t_priority = ''high'', t_project = alpha_id, t_creator = bob_id,
     t_assignee = Some ann_id,
     t_subtasks = [\<lparr>s_id = sub1_id, s_title = ''write'', s_isCompleted = True,
                     s_completedAt = Some 3\<rparr>,
                   \<lparr>s_id = sub2_id, s_title = ''review'', s_isCompleted = False,
                     s_completedAt = None\<rparr>],
     t_startDate = None, t_dueDate = None, t_completedAt = None,
     t_estimatedHours = 2, t_actualHours = 0, t_tags = [], t_order = 4,
     t_watchers = [bob_id], t_isArchived = False, t_createdAt = 2\<rparr>"

definition ex_task3 :: task where
  "ex_task3 = \<lparr>t_id = task3_id, t_title = ''T3'', t_description = None,
     t_status = ''completed'', t_priority = ''low'', t_project = alpha_id,
     t_creator = ann_id, t_assignee = None, t_subtasks = [], t_startDate = None,
     t_dueDate = None, t_completedAt = Some 9, t_estimatedHours = 0, t_actualHours = 0,
     t_tags = [], t_order = 0, t_watchers = [ann_id], t_isArchived = False,
     t_createdAt = 3\<rparr>"

definition ex_comment1 :: comment where
  "ex_comment1 = \<lparr>c_id = note1_id, c_content = ''Looks good'', c_task = task1_id,
     c_author = ann_id, c_mentions = [], c_isEdited = False, c_editedAt = None,
     c_parentComment = None, c_reactions = [], c_isDeleted = False, c_createdAt = 4\<rparr>"

definition ex_comment2 :: comment where
  "ex_comment2 = \<lparr>c_id = note2_id, c_content = ''Thanks'', c_task = task1_id,
     c_author = bob_id, c_mentions = [], c_isEdited = False, c_editedAt = None,
     c_parentComment = Some note1_id, c_reactions = [], c_isDeleted = False,
     c_createdAt = 5\<rparr>"

definition ex_db :: db where
  "ex_db = \<lparr>users = [ex_owner, ex_lead], projects = [ex_project],
     tasks = [ex_task1, ex_task2, ex_task3], comments = [ex_comment1, ex_comment2]\<rparr>"

definition no_project_update :: project_update where
  "no_project_update = \<lparr>pu_name = None, pu_description = None, pu_status = None,
     pu_priority = None, pu_startDate = None, pu_dueDate = None, pu_tags = None,
     pu_color = None, pu_isPublic = None, pu_isArchived = None\<rparr>"

definition no_task_update :: task_update where
  "no_task_update = \<lparr>tu_title = None, tu_description = None, tu_status = None,
     tu_priority = None, tu_assignee = None, tu_startDate = None, tu_dueDate = None,
     tu_estimatedHours = None, tu_actualHours = None, tu_tags = None, tu_order = None,
     tu_isArchived = None\<rparr>"

definition status_update :: "string \<Rightarrow> task_update" where
  "status_update st = no_task_update\<lparr>tu_status := Some st\<rparr>"

definition order_update :: "int \<Rightarrow> task_update" where
  "order_update n = no_task_update\<lparr>tu_order := Some n\<rparr>"

definition ex_task_input :: task_input where
  "ex_task_input = \<lparr>ti_title = ''T4'', ti_description = None, ti_project = alpha_id,
     ti_status = None, ti_priority = None, ti_assignee = None, ti_startDate = None,
     ti_dueDate = None, ti_estimatedHours = None, ti_tags = None, ti_subtasks = None\<rparr>"

definition ex_project_input :: project_input where
  "ex_project_input = \<lparr>pi_name = ''Beta'', pi_description = None, pi_status = None,
     pi_priority = None, pi_startDate = None, pi_dueDate = None, pi_tags = None,
     pi_color = None,
     pi_members = Some [\<lparr>mi_user = bob_id, mi_role = None\<rparr>,
                        \<lparr>mi_user = bob_id, mi_role = Some ''viewer''\<rparr>],
     pi_isPublic = None\<rparr>"

definition project_tasks_query :: "string \<Rightarrow> task_query" where
  "project_tasks_query pid = \<lparr>tq_page = None, tq_limit = None, tq_project = Some pid,
     tq_status = None, tq_priority = None, tq_assignee = None, tq_search = None,
     tq_sortBy = None, tq_sortOrder = None, tq_dueDate = None, tq_overdue = None\<rparr>"

definition ex_project_query :: project_query where
  "ex_project_query = \<lparr>pq_page = Some 2, pq_limit = Some 1, pq_search = None,
     pq_status = None, pq_priority = None, pq_sortBy = None, pq_sortOrder = None,
     pq_archived = None\<rparr>"

definition ex_comment_query :: comment_query where
  "ex_comment_query = \<lparr>cq_page = None, cq_limit = None\<rparr>"

definition ex_register_input :: "json option \<Rightarrow> register_input" where
  "ex_register_input r = \<lparr>ri_name = ''Eve'', ri_email = ''Eve@X.io'',
     ri_password = ''secret1'', ri_department = None, ri_phone = None, ri_role = r\<rparr>"

definition ex_fresh :: "nat \<Rightarrow> objectId" where
  "ex_fresh n = (if n = 0 then task4_id
                 else if n = 1 then ''d00000000000000000000011''
                 else ''d00000000000000000000012'')"

text \<open>A platform for the runs: the pattern \<open>(\<close> is refused and any other pattern
  matches the texts that equal it up to the case of the letters; one date string is
  known; every field path but the empty one is a sort key.\<close>

definition ex_env :: env where
  "ex_env =
     \<lparr>env_regex = (\<lambda>p. if p = ''('' then None
                        else Some (\<lambda>s. toLowerCase s = toLowerCase p)),
      env_parseDate = (\<lambda>s. if s = ''1970-01-02'' then Some 86400000 else None),
      env_sortable = (\<lambda>f. f \<noteq> [])\<rparr>"

definition any_email :: "string \<Rightarrow> bool" where
  "any_email e = True"

section \<open>Lemmas about the store\<close>

lemmas id_defs = ann_id_def bob_id_def cat_id_def eve_id_def alpha_id_def beta_id_def
  task1_id_def task2_id_def task3_id_def task4_id_def sub1_id_def sub2_id_def
  note1_id_def note2_id_def ann_id_upper_def bob_id_upper_def

lemmas ex_defs = ex_owner_def ex_lead_def ex_project_def ex_task1_def ex_task2_def ex_task3_def
  ex_comment1_def ex_comment2_def ex_db_def no_project_update_def no_task_update_def
  status_update_def order_update_def ex_task_input_def ex_project_input_def
  project_tasks_query_def ex_project_query_def ex_comment_query_def ex_register_input_def
  ex_fresh_def ex_env_def any_email_def id_defs

lemmas cast_defs = castObjectId_def hex_digits_def toLowerCase_def lower_char_def

lemma cast_ids:
  "castObjectId ann_id = Some ann_id"
  "castObjectId bob_id = Some bob_id"
  "castObjectId cat_id = Some cat_id"
  "castObjectId eve_id = Some eve_id"
  "castObjectId alpha_id = Some alpha_id"
  "castObjectId beta_id = Some beta_id"
  "castObjectId task1_id = Some task1_id"
  "castObjectId task2_id = Some task2_id"
  "castObjectId task3_id = Some task3_id"
  "castObjectId task4_id = Some task4_id"
  "castObjectId sub1_id = Some sub1_id"
  "castObjectId sub2_id = Some sub2_id"
  "castObjectId note1_id = Some note1_id"
  "castObjectId note2_id = Some note2_id"
  "castObjectId ann_id_upper = Some ann_id"
  "castObjectId bob_id_upper = Some bob_id"
  by (simp_all add: id_defs cast_defs)

lemmas cast_lits = cast_ids [unfolded id_defs]

lemmas store_defs = findById_def save_def deleteOne_def fail_def ok_def cast_fails_def
  cast_optional_def cast_lits

lemmas project_defs = project_valid_def member_valid_def description_valid_def
  project_statuses_def priorities_def member_roles_def ProjectSchema_pre_save_def
  apply_project_update_def set_opt_def set_opt_field_def

lemmas task_defs = task_valid_def subtask_valid_def description_valid_def task_statuses_def
  priorities_def TaskSchema_pre_save_def apply_task_update_def set_opt_def set_opt_field_def

lemma find_ident: "find (\<lambda>d. ident d = c) docs = Some y \<Longrightarrow> ident y = c"
  by (induction docs) (auto split: if_splits)

lemma find_save:
  "find (\<lambda>d. ident d = c) docs = Some y \<Longrightarrow> ident x = c
    \<Longrightarrow> find (\<lambda>d. ident d = c) (update_first (\<lambda>d. ident d = c) (\<lambda>d. x) docs) = Some x"
  by (induction docs) (auto split: if_splits)

lemma map_update_first_same:
  "find (\<lambda>d. ident d = c) docs = Some y \<Longrightarrow> g x = g y
    \<Longrightarrow> map g (update_first (\<lambda>d. ident d = c) (\<lambda>d. x) docs) = map g docs"
  by (induction docs) (auto split: if_splits)

lemma update_first_same:
  "find (\<lambda>d. ident d = c) docs = Some y
    \<Longrightarrow> update_first (\<lambda>d. ident d = c) (\<lambda>d. y) docs = docs"
  by (induction docs) (auto split: if_splits)

lemma findById_cast:
  "findById ident docs i = Some y \<Longrightarrow> castObjectId i = Some (ident y)"
  unfolding findById_def
  by (auto split: option.splits dest: find_ident)

lemma findById_find:
  "findById ident docs i = Some y \<Longrightarrow> find (\<lambda>d. ident d = ident y) docs = Some y"
  unfolding findById_def
  by (auto split: option.splits dest: find_ident)

lemma findById_not_fails: "findById ident docs i = Some y \<Longrightarrow> \<not> cast_fails i"
  by (auto simp: cast_fails_def dest: findById_cast)

lemma findById_save:
  assumes "findById ident docs i = Some y" and "ident x = ident y"
  shows "findById ident (save ident x docs) i = Some x"
  using findById_cast [OF assms(1)] find_save [OF findById_find [OF assms(1)], of x] assms(2)
  by (simp add: findById_def save_def)

lemma map_save_same:
  assumes "findById ident docs i = Some y" and "ident x = ident y" and "g x = g y"
  shows "map g (save ident x docs) = map g docs"
  using map_update_first_same [OF findById_find [OF assms(1)], of g x] assms(2,3)
  by (simp add: save_def)

lemma save_same:
  assumes "findById ident docs i = Some y"
  shows "save ident y docs = docs"
  using update_first_same [OF findById_find [OF assms]] by (simp add: save_def)

lemma length_save: "length (save ident x docs) = length docs"
  unfolding save_def by (induction docs) auto

section \<open>Who may add and remove members\<close>

text \<open>
  C1 (as amended). For an existing project, \<open>addMember\<close> and \<open>removeMember\<close> pass their
  authorization check exactly when the requester is the project's owner or has the global
  role \<open>admin\<close>; otherwise they answer 403 and leave the store as it was. A member with
  the per-project role \<open>admin\<close> is not enough (unlike in \<open>updateProject\<close>).
\<close>

theorem member_management_authorization:
  assumes "findById p_id (projects d) pid = Some p"
  shows "(status (fst (addMember d r pid uid role now)) \<noteq> 403)
           = (p_owner p = u_id r \<or> u_role r = ''admin'')
       \<and> (status (fst (removeMember d r pid uid now)) \<noteq> 403)
           = (p_owner p = u_id r \<or> u_role r = ''admin'')
       \<and> (status (fst (addMember d r pid uid role now)) = 403
            \<longrightarrow> snd (addMember d r pid uid role now) = d)
       \<and> (status (fst (removeMember d r pid uid now)) = 403
            \<longrightarrow> snd (removeMember d r pid uid now) = d)"
  using assms findById_not_fails [OF assms]
  by (auto simp: addMember_def removeMember_def fail_def ok_def Let_def split: option.splits)

theorem member_management_authorization_witness:
  "findById p_id (projects ex_db) alpha_id = Some ex_project
   \<and> status (fst (addMember ex_db ex_owner alpha_id cat_id None 5)) \<noteq> 403
   \<and> status (fst (removeMember ex_db ex_owner alpha_id bob_id 5)) \<noteq> 403
   \<and> status (fst (addMember ex_db ex_lead alpha_id cat_id None 5)) = 403
   \<and> snd (addMember ex_db ex_lead alpha_id cat_id None 5) = ex_db"
  using member_management_authorization [of ex_db alpha_id ex_project ex_owner cat_id None 5]
  using member_management_authorization [of ex_db alpha_id ex_project ex_lead cat_id None 5]
  using member_management_authorization [of ex_db alpha_id ex_project ex_owner bob_id None 5]
  by (simp add: ex_defs store_defs)

text \<open>
  The claim as stated fails: the user \<open>bob_id\<close> is a member of the project \<open>alpha_id\<close>
  with the per-project role \<open>admin\<close> (and neither the owner nor a global admin).
  \<open>updateProject\<close> lets that user through; \<open>addMember\<close>, which answers the owner with
  200, and \<open>removeMember\<close> answer 403.
\<close>

theorem member_admin_may_update_but_not_add_counterexample:
  "find (\<lambda>m. m_user m = u_id ex_lead) (p_members ex_project)
     = Some \<lparr>m_user = bob_id, m_role = ''admin'', m_joinedAt = 0\<rparr>
   \<and> status (fst (updateProject ex_db ex_lead alpha_id no_project_update)) = 200
   \<and> status (fst (addMember ex_db ex_owner alpha_id cat_id None 5)) = 200
   \<and> status (fst (addMember ex_db ex_lead alpha_id cat_id None 5)) = 403
   \<and> status (fst (removeMember ex_db ex_lead alpha_id cat_id 5)) = 403"
  by (simp add: updateProject_def addMember_def removeMember_def ex_defs store_defs
      project_defs Let_def)

section \<open>Removing the owner\<close>

text \<open>The outcomes of \<open>removeMember\<close>.\<close>

lemma removeMember_cases:
  assumes "removeMember d r pid uid now = (res, d')"
  shows "(status res = 500 \<and> d' = d \<and> cast_fails pid)
       \<or> (status res = 404 \<and> d' = d \<and> findById p_id (projects d) pid = None)
       \<or> (\<exists>p. findById p_id (projects d) pid = Some p \<and>
            ((status res = 403 \<and> d' = d \<and> p_owner p \<noteq> u_id r \<and> u_role r \<noteq> ''admin'')
           \<or> (status res = 400 \<and> d' = d \<and> uid = p_owner p
                \<and> (p_owner p = u_id r \<or> u_role r = ''admin''))
           \<or> (status res = 500 \<and> d' = d \<and> uid \<noteq> p_owner p)
           \<or> (status res = 200 \<and> uid \<noteq> p_owner p
                \<and> (p_owner p = u_id r \<or> u_role r = ''admin'')
                \<and> d' = d\<lparr>projects := save p_id
                     (p\<lparr>p_members := filter (\<lambda>m. m_user m \<noteq> uid) (p_members p)\<rparr>)
                     (projects d)\<rparr>)))"
  using assms
  by (auto simp: removeMember_def fail_def ok_def Let_def ProjectSchema_pre_save_def
      split: option.splits if_splits)

text \<open>
  C6 (as amended). \<open>removeMember\<close> with the user id of the project's owner, written as
  the store prints it (\<open>project.owner.toString()\<close>: 24 hexadecimal digits in lower
  case), always fails and changes nothing: with 403 when the requester is neither the owner
  nor a global admin, and with 400 (\<open>Cannot remove the project owner\<close>) otherwise. No
  call of \<open>removeMember\<close> changes the owner of any project, and every call that does not
  answer 200 leaves the whole store, the member lists included, as it was.
\<close>

theorem removeMember_owner_rejected:
  assumes "removeMember d r pid uid now = (res, d')"
  shows "map p_owner (projects d') = map p_owner (projects d)
       \<and> (status res \<noteq> 200 \<longrightarrow> d' = d)
       \<and> (\<forall>p. findById p_id (projects d) pid = Some p \<and> uid = p_owner p \<longrightarrow>
             d' = d \<and> status res =
               (if p_owner p \<noteq> u_id r \<and> u_role r \<noteq> ''admin'' then 403 else 400))"
proof -
  note c = removeMember_cases [OF assms]
  have keep: "map p_owner (save p_id (p\<lparr>p_members := ms\<rparr>) (projects d))
                = map p_owner (projects d)"
    if f: "findById p_id (projects d) pid = Some p" for p ms
    by (rule map_save_same [OF f]) simp_all
  have "map p_owner (projects d') = map p_owner (projects d)"
    using c keep by auto
  moreover have "status res \<noteq> 200 \<longrightarrow> d' = d"
    using c by auto
  moreover have "\<forall>p. findById p_id (projects d) pid = Some p \<and> uid = p_owner p \<longrightarrow>
      d' = d \<and> status res =
        (if p_owner p \<noteq> u_id r \<and> u_role r \<noteq> ''admin'' then 403 else 400)"
    using c by (auto dest: findById_not_fails)
  ultimately show ?thesis by blast
qed

theorem removeMember_owner_rejected_witness:
  "status (fst (removeMember ex_db ex_owner alpha_id ann_id 5)) = 400
   \<and> snd (removeMember ex_db ex_owner alpha_id ann_id 5) = ex_db
   \<and> status (fst (removeMember ex_db ex_lead alpha_id ann_id 5)) = 403
   \<and> snd (removeMember ex_db ex_lead alpha_id ann_id 5) = ex_db
   \<and> status (fst (removeMember ex_db ex_owner alpha_id bob_id 5)) = 200
   \<and> map p_owner (projects (snd (removeMember ex_db ex_owner alpha_id bob_id 5))) = [ann_id]
   \<and> map member_ids (projects (snd (removeMember ex_db ex_owner alpha_id bob_id 5))) = [[]]"
  using removeMember_owner_rejected [of ex_db ex_owner alpha_id ann_id 5
      "fst (removeMember ex_db ex_owner alpha_id ann_id 5)"
      "snd (removeMember ex_db ex_owner alpha_id ann_id 5)"]
  using removeMember_owner_rejected [of ex_db ex_lead alpha_id ann_id 5
      "fst (removeMember ex_db ex_lead alpha_id ann_id 5)"
      "snd (removeMember ex_db ex_lead alpha_id ann_id 5)"]
  using removeMember_owner_rejected [of ex_db ex_owner alpha_id bob_id 5
      "fst (removeMember ex_db ex_owner alpha_id bob_id 5)"
      "snd (removeMember ex_db ex_owner alpha_id bob_id 5)"]
  by (simp add: removeMember_def ex_defs store_defs project_defs member_ids_def Let_def)

text \<open>
  The claim as stated fails for a requester who may not manage members: the user
  \<open>bob_id\<close> asks to remove the owner \<open>ann_id\<close> of the project \<open>alpha_id\<close> and is
  answered 403 (not authorized), not the 400 of the owner check.
\<close>

theorem removeMember_owner_forbidden_counterexample:
  "p_owner ex_project = ann_id
   \<and> status (fst (removeMember ex_db ex_lead alpha_id ann_id 5)) = 403
   \<and> message (fst (removeMember ex_db ex_lead alpha_id ann_id 5))
       = ''Not authorized to remove members''"
  by (simp add: removeMember_def ex_defs store_defs project_defs Let_def)

text \<open>
  The owner check compares strings (\<open>req.params.userId === project.owner.toString()\<close>),
  and the route (\<open>isMongoId\<close>) admits the digits of an id in upper case. The owner's id in
  upper case is the same ObjectId and another string: the call passes the owner check and
  answers 200. It removes nobody, since the filter on the member list compares the same
  strings, and the owner stays the owner.
\<close>

lemma removeMember_owner_other_spelling:
  "p_owner ex_project = ann_id
   \<and> castObjectId ann_id_upper = Some ann_id
   \<and> status (fst (removeMember ex_db ex_owner alpha_id ann_id 60)) = 400
   \<and> status (fst (removeMember ex_db ex_owner alpha_id ann_id_upper 60)) = 200
   \<and> map p_owner (projects (snd (removeMember ex_db ex_owner alpha_id ann_id_upper 60)))
       = [ann_id]
   \<and> map member_ids (projects (snd (removeMember ex_db ex_owner alpha_id ann_id_upper 60)))
       = [[bob_id]]"
  by (simp add: removeMember_def member_ids_def ProjectSchema_pre_save_def
      ex_defs store_defs project_defs Let_def)

section \<open>The order of a new task\<close>

lemma bit_len_le: "n < 2 ^ k \<Longrightarrow> bit_len n \<le> k"
proof (induction k arbitrary: n)
  case 0
  then have "n = 0" by simp
  then show ?case by (subst bit_len.simps) simp
next
  case (Suc k)
  show ?case
  proof (cases "n = 0")
    case True
    then show ?thesis by (subst bit_len.simps) simp
  next
    case False
    have "n div 2 < 2 ^ k" using Suc.prems by simp
    then have "bit_len (n div 2) \<le> k" by (rule Suc.IH)
    with False show ?thesis by (subst bit_len.simps) simp
  qed
qed

lemma bit_len_eq: "2 ^ k \<le> n \<Longrightarrow> n < 2 ^ Suc k \<Longrightarrow> bit_len n = Suc k"
proof (induction k arbitrary: n)
  case 0
  then have n: "n = 1" by simp
  have "bit_len 0 = 0" by (subst bit_len.simps) simp
  then show ?case unfolding n by (subst bit_len.simps) simp
next
  case (Suc k)
  have "2 ^ k \<le> n div 2" and "n div 2 < 2 ^ Suc k"
    using Suc.prems by simp_all
  then have "bit_len (n div 2) = Suc k" by (rule Suc.IH)
  moreover have "n \<noteq> 0" using Suc.prems by auto
  ultimately show ?case by (subst bit_len.simps) simp
qed

lemma bit_len_2_53: "bit_len 9007199254740992 = 54"
  using bit_len_eq [of 53 9007199254740992] by simp

lemma bit_len_2_53_plus_1: "bit_len 9007199254740993 = 54"
  using bit_len_eq [of 53 9007199254740993] by simp

lemma to_double_safe: "\<bar>m\<bar> < 2 ^ 53 \<Longrightarrow> to_double m = m"
proof -
  assume "\<bar>m\<bar> < 2 ^ 53"
  then have "nat \<bar>m\<bar> < 2 ^ 53" by simp
  then have "bit_len (nat \<bar>m\<bar>) \<le> 53" by (rule bit_len_le)
  then show ?thesis by (simp add: to_double_def Let_def)
qed

lemma to_double_2_53: "to_double 9007199254740992 = 9007199254740992"
  by (simp add: to_double_def Let_def bit_len_2_53)

lemma to_double_2_53_plus_1: "to_double 9007199254740993 = 9007199254740992"
  by (simp add: to_double_def Let_def bit_len_2_53_plus_1)

lemma highest_order_None: "(highest_order ts = None) = (ts = [])"
  by (induction ts) (auto split: option.splits)

lemma highest_order_Max:
  "highest_order ts = Some h \<Longrightarrow> h \<in> set ts \<and> t_order h = Max (t_order ` set ts)"
proof (induction ts arbitrary: h)
  case Nil
  then show ?case by simp
next
  case (Cons t ts)
  show ?case
  proof (cases "highest_order ts")
    case None
    then have "ts = []" by (simp add: highest_order_None)
    with Cons.prems None show ?thesis by simp
  next
    case (Some g)
    then have g: "g \<in> set ts" "t_order g = Max (t_order ` set ts)"
      using Cons.IH by auto
    then have ne: "ts \<noteq> []" by auto
    have "Max (t_order ` set (t # ts)) = max (t_order t) (Max (t_order ` set ts))"
      using ne by simp
    with Cons.prems Some g show ?thesis
      by (auto split: if_splits simp: max_def)
  qed
qed

lemma next_order_Max:
  "next_order (highest_order ts) =
     (if ts = [] then 0 else to_double (1 + Max (t_order ` set ts)))"
  using highest_order_None [of ts] highest_order_Max [of ts]
  by (cases "highest_order ts") (auto simp: next_order_def add.commute)

text \<open>
  C3 (as amended). When \<open>createTask\<close> creates a task (201) in project \<open>P\<close> with status
  \<open>S\<close> (\<open>todo\<close> when the request gives none), the new task's \<open>order\<close> is 0 when
  the column \<open>(P, S)\<close> is empty, and otherwise the Number nearest to 1 + the greatest
  \<open>order\<close> among the tasks already stored in the column (the sum \<open>order + 1\<close> of
  Numbers). When the greatest \<open>order\<close> is below \<open>2 ^ 53 - 1\<close> in absolute value, the
  new \<open>order\<close> is exactly 1 + the greatest \<open>order\<close>.
\<close>

theorem createTask_order:
  assumes "createTask d r body fresh now = (res, d')" and "status res = 201"
  shows "\<exists>t. data res = Some t \<and> tasks d' = tasks d @ [t]
           \<and> castObjectId (ti_project body) = Some (t_project t)
           \<and> t_status t = or_default (ti_status body) ''todo''
           \<and> t_order t =
               (if column d (t_project t) (t_status t) = [] then 0
                else to_double (1 + Max (t_order ` set (column d (t_project t) (t_status t)))))
           \<and> (column d (t_project t) (t_status t) \<noteq> []
                \<and> \<bar>Max (t_order ` set (column d (t_project t) (t_status t)))\<bar> < 2 ^ 53 - 1
              \<longrightarrow> t_order t = 1 + Max (t_order ` set (column d (t_project t) (t_status t))))"
proof -
  obtain p a where p: "findById p_id (projects d) (ti_project body) = Some p"
    and a: "cast_optional (ti_assignee body) = Some a"
    using assms
    by (auto simp: createTask_def fail_def ok_def Let_def split: option.splits if_splits)
  let ?st = "or_default (ti_status body) ''todo''"
  let ?col = "column d (p_id p) ?st"
  obtain t where t: "data res = Some t" "tasks d' = tasks d @ [t]"
    "t_project t = p_id p" "t_status t = ?st" "t_order t = next_order (highest_order ?col)"
    using assms p a
    by (auto simp: createTask_def fail_def ok_def Let_def TaskSchema_pre_save_def
        split: option.splits if_splits)
  have ord: "t_order t = (if ?col = [] then 0 else to_double (1 + Max (t_order ` set ?col)))"
    using t(5) by (simp add: next_order_Max)
  have safe: "t_order t = 1 + Max (t_order ` set ?col)"
    if "?col \<noteq> []" and "\<bar>Max (t_order ` set ?col)\<bar> < 2 ^ 53 - 1"
  proof -
    have "\<bar>1 + Max (t_order ` set ?col)\<bar> < 2 ^ 53" using that(2) by simp
    then show ?thesis using ord that(1) by (simp add: to_double_safe)
  qed
  have "castObjectId (ti_project body) = Some (t_project t)"
    using findById_cast [OF p] t(3) by simp
  with t ord safe show ?thesis by auto
qed

theorem createTask_order_witness:
  "status (fst (createTask ex_db ex_lead ex_task_input ex_fresh 20)) = 201
   \<and> map t_order (column ex_db alpha_id ''todo'') = [0, 4]
   \<and> map_option t_order (data (fst (createTask ex_db ex_lead ex_task_input ex_fresh 20))) = Some 5
   \<and> map_option t_order (data (fst (createTask ex_db ex_lead
        (ex_task_input\<lparr>ti_status := Some ''in-review''\<rparr>) ex_fresh 20))) = Some 0"
  using createTask_order [of ex_db ex_lead ex_task_input ex_fresh 20
      "fst (createTask ex_db ex_lead ex_task_input ex_fresh 20)"
      "snd (createTask ex_db ex_lead ex_task_input ex_fresh 20)"]
  by (simp add: createTask_def column_def isMember_def cast_subtasks_def next_order_def
      to_double_safe ex_defs store_defs task_defs Let_def)

text \<open>
  The claim as stated fails from \<open>2 ^ 53\<close> on. No validator bounds \<open>order\<close>:
  \<open>updateTask\<close> sets the \<open>order\<close> of \<open>task3_id\<close>, the one task of the column
  \<open>completed\<close> of the project \<open>alpha_id\<close>, to \<open>2 ^ 53\<close>. \<open>createTask\<close> in that
  column then gives the new task the \<open>order\<close> \<open>2 ^ 53\<close>: the greatest \<open>order\<close> of
  the column, not 1 + it.
\<close>

theorem createTask_order_at_2_53_counterexample:
  "status (fst (updateTask ex_db task3_id (order_update (2 ^ 53)))) = 200
   \<and> map t_order (column (snd (updateTask ex_db task3_id (order_update (2 ^ 53))))
        alpha_id ''completed'') = [2 ^ 53]
   \<and> status (fst (createTask (snd (updateTask ex_db task3_id (order_update (2 ^ 53))))
        ex_lead (ex_task_input\<lparr>ti_status := Some ''completed''\<rparr>) ex_fresh 20)) = 201
   \<and> map_option t_order
       (data (fst (createTask (snd (updateTask ex_db task3_id (order_update (2 ^ 53))))
          ex_lead (ex_task_input\<lparr>ti_status := Some ''completed''\<rparr>) ex_fresh 20)))
       = Some (2 ^ 53)"
  by (simp add: createTask_def updateTask_def column_def isMember_def cast_subtasks_def
      next_order_def to_double_2_53 to_double_2_53_plus_1 ex_defs store_defs task_defs Let_def)

section \<open>Toggling a subtask twice\<close>

lemma find_update_first_same:
  "find P xs = Some y \<Longrightarrow> (\<And>x. P (f x) = P x) \<Longrightarrow> find P (update_first P f xs) = Some (f y)"
  by (induction xs) (auto split: if_splits)

lemma list_all_update_first:
  "list_all Q (update_first P f xs) = list_all Q xs" if "\<And>x. Q (f x) = Q x"
  using that by (induction xs) auto

lemma toggle_valid: "subtask_valid (toggle now s) = subtask_valid s"
  by (simp add: toggle_def subtask_valid_def Let_def)

lemma toggle_id: "s_id (toggle now s) = s_id s"
  by (simp add: toggle_def Let_def)

lemma subtasks_id_cast:
  "subtasks_id ss sid = Some s \<Longrightarrow> castObjectId sid = Some (s_id s)"
  unfolding subtasks_id_def by (auto split: option.splits dest: find_ident)

lemma subtasks_id_toggled:
  assumes "subtasks_id ss sid = Some s"
  shows "subtasks_id (update_first (\<lambda>x. s_id x = s_id s) (toggle now) ss) sid
           = Some (toggle now s)"
proof -
  have c: "castObjectId sid = Some (s_id s)" using assms by (rule subtasks_id_cast)
  then have "find (\<lambda>x. s_id x = s_id s) ss = Some s"
    using assms by (simp add: subtasks_id_def)
  then have "find (\<lambda>x. s_id x = s_id s) (update_first (\<lambda>x. s_id x = s_id s) (toggle now) ss)
      = Some (toggle now s)"
    by (rule find_update_first_same) (simp add: toggle_id)
  then show ?thesis using c by (simp add: subtasks_id_def)
qed

lemma toggleSubtask_ok:
  assumes "findById t_id (tasks d) tid = Some t"
      and "subtasks_id (t_subtasks t) sid = Some s"
      and "task_valid t"
  shows "toggleSubtask d tid sid now =
           (ok 200 ''Subtask toggled''
              (Some (update_first (\<lambda>x. s_id x = s_id s) (toggle now) (t_subtasks t))),
            d\<lparr>tasks := save t_id
                (t\<lparr>t_subtasks := update_first (\<lambda>x. s_id x = s_id s) (toggle now) (t_subtasks t)\<rparr>)
                (tasks d)\<rparr>)"
  using assms findById_not_fails [OF assms(1)]
  by (simp add: toggleSubtask_def Let_def TaskSchema_pre_save_def task_valid_def
      list_all_update_first toggle_valid)

lemma toggleSubtask_200:
  assumes "toggleSubtask d tid sid now = (res, d')" and "status res = 200"
  shows "\<exists>t s. findById t_id (tasks d) tid = Some t \<and> subtasks_id (t_subtasks t) sid = Some s
           \<and> task_valid t"
  using assms
  by (auto simp: toggleSubtask_def Let_def fail_def ok_def task_valid_def
      list_all_update_first toggle_valid split: option.splits if_splits)

text \<open>
  C9 (as amended). When \<open>toggleSubtask\<close> succeeds on subtask \<open>S\<close> of task \<open>T\<close>, a
  second \<open>toggleSubtask\<close> on the same subtask succeeds too and returns \<open>S\<close> to its
  original \<open>isCompleted\<close> value. After the second toggle \<open>completedAt\<close> is cleared when
  \<open>S\<close> was not completed at the start, and is the time of the second toggle when \<open>S\<close>
  was completed at the start.
\<close>

theorem toggleSubtask_twice:
  assumes "toggleSubtask d tid sid n1 = (r1, d1)" and "status r1 = 200"
      and "toggleSubtask d1 tid sid n2 = (r2, d2)"
  shows "status r2 = 200 \<and>
         (\<exists>t s t2 s2. findById t_id (tasks d) tid = Some t
            \<and> subtasks_id (t_subtasks t) sid = Some s
            \<and> findById t_id (tasks d2) tid = Some t2
            \<and> subtasks_id (t_subtasks t2) sid = Some s2
            \<and> s_isCompleted s2 = s_isCompleted s
            \<and> s_completedAt s2 = (if s_isCompleted s then Some n2 else None))"
proof -
  obtain t s where t: "findById t_id (tasks d) tid = Some t"
    and s: "subtasks_id (t_subtasks t) sid = Some s" and v: "task_valid t"
    using toggleSubtask_200 [OF assms(1,2)] by blast
  let ?P = "\<lambda>x. s_id x = s_id s"
  let ?t1 = "t\<lparr>t_subtasks := update_first ?P (toggle n1) (t_subtasks t)\<rparr>"
  have d1: "d1 = d\<lparr>tasks := save t_id ?t1 (tasks d)\<rparr>"
    using toggleSubtask_ok [OF t s v, of n1] assms(1) by simp
  have t1: "findById t_id (tasks d1) tid = Some ?t1"
    unfolding d1 using findById_save [OF t, of ?t1] by simp
  have s1: "subtasks_id (t_subtasks ?t1) sid = Some (toggle n1 s)"
    using subtasks_id_toggled [OF s, of n1] by simp
  have v1: "task_valid ?t1"
    using v by (simp add: task_valid_def list_all_update_first toggle_valid)
  let ?t2 = "?t1\<lparr>t_subtasks := update_first ?P (toggle n2) (t_subtasks ?t1)\<rparr>"
  have step2: "toggleSubtask d1 tid sid n2 =
      (ok 200 ''Subtask toggled'' (Some (t_subtasks ?t2)), d1\<lparr>tasks := save t_id ?t2 (tasks d1)\<rparr>)"
    using toggleSubtask_ok [OF t1 s1 v1, of n2] by (simp add: toggle_id)
  then have r2: "status r2 = 200" and d2: "d2 = d1\<lparr>tasks := save t_id ?t2 (tasks d1)\<rparr>"
    using assms(3) by (auto simp: ok_def)
  have t2: "findById t_id (tasks d2) tid = Some ?t2"
    unfolding d2 using findById_save [OF t1, of ?t2] by simp
  have s2: "subtasks_id (t_subtasks ?t2) sid = Some (toggle n2 (toggle n1 s))"
    using subtasks_id_toggled [OF s1, of n2] by (simp add: toggle_id)
  have "s_isCompleted (toggle n2 (toggle n1 s)) = s_isCompleted s"
    and "s_completedAt (toggle n2 (toggle n1 s)) = (if s_isCompleted s then Some n2 else None)"
    by (simp_all add: toggle_def Let_def)
  with r2 t s t2 s2 show ?thesis by blast
qed

theorem toggleSubtask_twice_witness:
  "status (fst (toggleSubtask ex_db task2_id sub2_id 30)) = 200
   \<and> status (fst (toggleSubtask (snd (toggleSubtask ex_db task2_id sub2_id 30))
        task2_id sub2_id 31)) = 200
   \<and> map_option (map s_completedAt)
       (data (fst (toggleSubtask (snd (toggleSubtask ex_db task2_id sub2_id 30))
          task2_id sub2_id 31)))
       = Some [Some 3, None]"
  using toggleSubtask_twice [of ex_db task2_id sub2_id 30
      "fst (toggleSubtask ex_db task2_id sub2_id 30)"
      "snd (toggleSubtask ex_db task2_id sub2_id 30)" 31
      "fst (toggleSubtask (snd (toggleSubtask ex_db task2_id sub2_id 30)) task2_id sub2_id 31)"
      "snd (toggleSubtask (snd (toggleSubtask ex_db task2_id sub2_id 30)) task2_id sub2_id 31)"]
  by (simp add: toggleSubtask_def subtasks_id_def toggle_def ex_defs store_defs task_defs Let_def)

text \<open>
  The claim as stated fails for a subtask that is completed at the start: subtask
  \<open>sub1_id\<close> of \<open>task2_id\<close> is completed (at time 3); after two toggles (at 30 and 31)
  it is completed again and its \<open>completedAt\<close> is 31, not cleared.
\<close>

theorem toggle_completed_subtask_twice_counterexample:
  "map_option (map s_completedAt) (map_option t_subtasks (findById t_id (tasks ex_db) task2_id))
     = Some [Some 3, None]
   \<and> status (fst (toggleSubtask ex_db task2_id sub1_id 30)) = 200
   \<and> status (fst (toggleSubtask (snd (toggleSubtask ex_db task2_id sub1_id 30))
        task2_id sub1_id 31)) = 200
   \<and> map_option (map s_isCompleted)
       (data (fst (toggleSubtask (snd (toggleSubtask ex_db task2_id sub1_id 30))
          task2_id sub1_id 31)))
       = Some [True, False]
   \<and> map_option (map s_completedAt)
       (data (fst (toggleSubtask (snd (toggleSubtask ex_db task2_id sub1_id 30))
          task2_id sub1_id 31)))
       = Some [Some 31, None]"
  by (simp add: toggleSubtask_def subtasks_id_def toggle_def ex_defs store_defs task_defs Let_def)

section \<open>Lemmas about queries\<close>

lemma set_sort_docs: "set (sort_docs k a xs) = set xs"
  by (simp add: sort_docs_def)



lemma skip_limit_subset: "skip_limit sk lm xs = Some ys \<Longrightarrow> set ys \<subseteq> set xs"
  by (auto simp: skip_limit_def split: if_splits dest: in_set_dropD in_set_takeD)

section \<open>Deleting a project deletes its tasks\<close>





section \<open>Registration and the admin role\<close>

text \<open>
  For a request whose \<open>role\<close> is a string or absent, \<open>register\<close> never stores the role
  \<open>admin\<close>: the role is \<open>user\<close> if the request asked for \<open>admin\<close>, and otherwise the
  requested role, or \<open>user\<close> if none was given.
\<close>

lemma register_string_role:
  assumes "register email_ok d body oid = (res, d')"
      and "ri_role body = None \<or> (\<exists>s. ri_role body = Some (JStr s))"
  shows "(status res = 201 \<longrightarrow>
            (\<exists>u. data res = Some u \<and> users d' = users d @ [u]
               \<and> u_role u \<noteq> ''admin''
               \<and> u_role u = (if ri_role body = Some (JStr ''admin'') then ''user''
                             else case ri_role body of
                                    Some (JStr s) \<Rightarrow> if s = [] then ''user'' else s
                                  | _ \<Rightarrow> ''user'')))
       \<and> (status res \<noteq> 201 \<longrightarrow> d' = d)"
proof -
  have r: "castString (requested_role (ri_role body)) =
      Text (if ri_role body = Some (JStr ''admin'') then ''user''
            else case ri_role body of
                   Some (JStr s) \<Rightarrow> if s = [] then ''user'' else s
                 | _ \<Rightarrow> ''user'')"
    using assms(2) by (auto simp: requested_role_def)
  have n: "(if ri_role body = Some (JStr ''admin'') then ''user''
            else case ri_role body of
                   Some (JStr s) \<Rightarrow> if s = [] then ''user'' else s
                 | _ \<Rightarrow> ''user'') \<noteq> ''admin''"
    using assms(2) by (auto split: if_splits)
  show ?thesis
    using assms(1) n unfolding register_def r
    by (auto simp: fail_def ok_def Let_def split: option.splits if_splits cast.splits)
qed

text \<open>
  C10 says that no input to \<open>register\<close> creates a user with the role \<open>admin\<close>. The
  handler compares the \<open>role\<close> of the request with the string \<open>admin\<close>
  (\<open>role === 'admin'\<close>) and passes every other truthy value on to \<open>User.create\<close>; the
  route does not check \<open>role\<close>. The object \<open>{_id: 'admin'}\<close> is not that string, and
  the schema (type \<open>String\<close>) casts it to \<open>admin\<close>: the store of the examples has no
  admin, and \<open>register\<close> with that \<open>role\<close> creates one (201). The same request with
  the string \<open>admin\<close> creates a user with the role \<open>user\<close>, as the comment of the
  handler intends (\<open>Only allow admin role creation by existing admins\<close>).
\<close>

theorem register_object_role_admin:
  "find (\<lambda>u. u_role u = ''admin'') (users ex_db) = None
   \<and> status (fst (register any_email ex_db
        (ex_register_input (Some (JObj [(''_id'', JStr ''admin'')]))) eve_id)) = 201
   \<and> map_option u_role (data (fst (register any_email ex_db
        (ex_register_input (Some (JObj [(''_id'', JStr ''admin'')]))) eve_id))) = Some ''admin''
   \<and> map u_role (users (snd (register any_email ex_db
        (ex_register_input (Some (JObj [(''_id'', JStr ''admin'')]))) eve_id)))
       = [''user'', ''user'', ''admin'']
   \<and> map_option u_role (data (fst (register any_email ex_db
        (ex_register_input (Some (JStr ''admin''))) eve_id))) = Some ''user''"
  by (simp add: register_def requested_role_def cast_phone_def user_valid_def user_roles_def
      toLowerCase_def lower_char_def ex_defs fail_def ok_def Let_def)

section \<open>A soft-deleted comment and the listing\<close>

text \<open>
  \<open>getComments\<close> lists no deleted comment: neither as a top-level comment nor among the
  attached replies.
\<close>

lemma getComments_listing_not_deleted:
  assumes "data (getComments d taskId q) = Some pg" and "e \<in> set (items pg)"
  shows "\<not> c_isDeleted (cr_comment e) \<and> list_all (\<lambda>r. \<not> c_isDeleted r) (cr_replies e)"
proof -
  obtain task cs where cs: "set cs \<subseteq> set (filter (top_level task) (comments d))"
    and it: "items pg = map (populate_replies (comments d)) cs"
    using assms(1)
    by (auto simp: getComments_def Let_def fail_def ok_def
        split: option.splits dest!: skip_limit_subset simp: set_sort_docs)
  obtain c where c: "c \<in> set cs" and e: "e = populate_replies (comments d) c"
    using assms(2) it by auto
  have "\<not> c_isDeleted c" using c cs by (auto simp: top_level_def)
  then show ?thesis
    unfolding e by (simp add: populate_replies_def list_all_iff set_sort_docs)
qed

lemma deleteComment_allowed:
  assumes "findById c_id (comments d) cid = Some c"
      and "c_author c = u_id r \<or> u_role r = ''admin''"
  shows "deleteComment d r cid now =
           (ok 200 ''Comment deleted'' None,
            d\<lparr>comments := save c_id
                (CommentSchema_pre_save (c_content c \<noteq> tombstone) False now
                   (c\<lparr>c_isDeleted := True, c_content := tombstone\<rparr>)) (comments d)\<rparr>)"
  using assms findById_not_fails [OF assms(1)] by (auto simp: deleteComment_def Let_def)

text \<open>
  C7 (as amended). When the author of comment \<open>C\<close> or a global admin calls
  \<open>deleteComment\<close> on \<open>C\<close> (a reply or not), the call succeeds and \<open>C\<close> stays in the
  store, under its id and with its task, author and parent, with its content equal to
  the tombstone text and \<open>isDeleted = true\<close>. The listing of \<open>getComments\<close> no longer
  shows it: it is neither a listed top-level comment nor in any attached reply list, for
  every task and page.
\<close>

theorem deleteComment_soft:
  assumes "findById c_id (comments d) cid = Some c"
      and "c_author c = u_id r \<or> u_role r = ''admin''"
      and "deleteComment d r cid now = (res, d')"
  shows "status res = 200 \<and>
         (\<exists>c'. findById c_id (comments d') cid = Some c'
            \<and> c_content c' = tombstone \<and> c_isDeleted c'
            \<and> c_parentComment c' = c_parentComment c \<and> c_task c' = c_task c
            \<and> c_author c' = c_author c
            \<and> length (comments d') = length (comments d)
            \<and> (\<forall>taskId q pg e. data (getComments d' taskId q) = Some pg \<and> e \<in> set (items pg)
                  \<longrightarrow> cr_comment e \<noteq> c' \<and> c' \<notin> set (cr_replies e)))"
proof -
  let ?c' = "CommentSchema_pre_save (c_content c \<noteq> tombstone) False now
               (c\<lparr>c_isDeleted := True, c_content := tombstone\<rparr>)"
  have eq: "res = ok 200 ''Comment deleted'' None" "d' = d\<lparr>comments := save c_id ?c' (comments d)\<rparr>"
    using deleteComment_allowed [OF assms(1,2), of now] assms(3) by simp_all
  have fields: "c_content ?c' = tombstone" "c_isDeleted ?c'" "c_id ?c' = c_id c"
    "c_parentComment ?c' = c_parentComment c" "c_task ?c' = c_task c" "c_author ?c' = c_author c"
    by (simp_all add: CommentSchema_pre_save_def)
  have found: "findById c_id (comments d') cid = Some ?c'"
    unfolding eq using findById_save [OF assms(1), of ?c'] fields(3) by simp
  have len: "length (comments d') = length (comments d)"
    unfolding eq by (simp add: length_save)
  have listing: "cr_comment e \<noteq> ?c' \<and> ?c' \<notin> set (cr_replies e)"
    if "data (getComments d' taskId q) = Some pg" and "e \<in> set (items pg)" for taskId q pg e
    using getComments_listing_not_deleted [OF that] fields(2)
    by (auto simp: list_all_iff)
  have "status res = 200" unfolding eq by (simp add: ok_def)
  with found fields len listing show ?thesis by blast
qed

theorem deleteComment_soft_witness:
  "findById c_id (comments ex_db) note2_id = Some ex_comment2
   \<and> c_author ex_comment2 = u_id ex_lead
   \<and> status (fst (deleteComment ex_db ex_lead note2_id 40)) = 200
   \<and> map c_content (comments (snd (deleteComment ex_db ex_lead note2_id 40)))
       = [''Looks good'', tombstone]
   \<and> map c_isDeleted (comments (snd (deleteComment ex_db ex_lead note2_id 40))) = [False, True]
   \<and> listed_ids (getComments (snd (deleteComment ex_db ex_lead note2_id 40)) task1_id
        ex_comment_query) = [note1_id]"
  using deleteComment_soft [of ex_db note2_id ex_comment2 ex_lead 40
      "fst (deleteComment ex_db ex_lead note2_id 40)"
      "snd (deleteComment ex_db ex_lead note2_id 40)"]
  by (simp add: deleteComment_def getComments_def listed_ids_def populate_replies_def
      top_level_def CommentSchema_pre_save_def sort_docs_def skip_limit_def key_num_def
      tombstone_def ex_defs store_defs set_opt_def pagination_short_def Let_def)

text \<open>
  The claim as stated fails: \<open>note2_id\<close> is a reply to \<open>note1_id\<close> and is listed among
  the replies of \<open>note1_id\<close>; after its author \<open>bob_id\<close> deletes it, the reply list of
  \<open>note1_id\<close> is empty.
\<close>

theorem deleted_reply_not_listed_counterexample:
  "c_parentComment ex_comment2 = Some note1_id
   \<and> reply_ids (getComments ex_db task1_id ex_comment_query) = [[note2_id]]
   \<and> status (fst (deleteComment ex_db ex_lead note2_id 40)) = 200
   \<and> reply_ids (getComments (snd (deleteComment ex_db ex_lead note2_id 40)) task1_id
        ex_comment_query) = [[]]"
  by (simp add: deleteComment_def getComments_def reply_ids_def populate_replies_def
      top_level_def CommentSchema_pre_save_def sort_docs_def skip_limit_def key_num_def
      tombstone_def ex_defs store_defs set_opt_def pagination_short_def Let_def)

section \<open>The pagination object of the list endpoints\<close>

text \<open>The pagination object of each list handler, when it answers with one.\<close>

lemma getProjects_paging:
  "paging_of (getProjects e d r q) =
     (if project_query_throws e q
         \<or> (set_opt (pq_page q) 1 - 1) * set_opt (pq_limit q) 10 < 0 then None
      else Some (pagination_full (set_opt (pq_page q) 1) (set_opt (pq_limit q) 10)
                   (int (length (filter (project_matches e r q) (projects d))))))"
  by (simp add: getProjects_def paging_of_def Let_def skip_limit_def fail_def ok_def)

lemma getTasks_paging:
  "paging_of (getTasks e d r q now) =
     (if task_query_throws e q
         \<or> (set_opt (tq_page q) 1 - 1) * set_opt (tq_limit q) 20 < 0 then None
      else Some (pagination_full (set_opt (tq_page q) 1) (set_opt (tq_limit q) 20)
                   (int (length (filter (task_matches e r q now) (tasks d))))))"
  by (simp add: getTasks_def paging_of_def Let_def skip_limit_def fail_def ok_def)

lemma getComments_paging:
  "paging_of (getComments d taskId q) =
     (case castObjectId taskId of
        None \<Rightarrow> None
      | Some task \<Rightarrow>
          if findById t_id (tasks d) taskId = None
             \<or> (set_opt (cq_page q) 1 - 1) * set_opt (cq_limit q) 20 < 0 then None
          else Some (pagination_short (set_opt (cq_page q) 1) (set_opt (cq_limit q) 20)
                       (int (length (filter (top_level task) (comments d))))))"
  by (auto simp: getComments_def paging_of_def Let_def skip_limit_def fail_def ok_def
      split: option.splits)

text \<open>
  C8 (as amended). Whenever the project list or the task list answers with a pagination
  object, it has \<open>current\<close> (the requested page, 1 by default), \<open>limit\<close> (10 and 20 by
  default), \<open>total\<close> (the number of documents that match the filter),
  \<open>pages = ceil(total / limit)\<close> (for a limit other than 0),
  \<open>hasNext = (current * limit < total)\<close> and \<open>hasPrev = (current > 1)\<close>. The comment
  list answers with \<open>current\<close>, \<open>pages\<close>, \<open>total\<close> and \<open>limit\<close> under the same
  formulas, and has no \<open>hasNext\<close> and no \<open>hasPrev\<close>.
\<close>

theorem list_pagination:
  "(paging_of (getProjects e d r pq) = Some a \<longrightarrow>
      pg_current a = set_opt (pq_page pq) 1
      \<and> pg_limit a = set_opt (pq_limit pq) 10
      \<and> pg_total a = int (length (filter (project_matches e r pq) (projects d)))
      \<and> (pg_limit a \<noteq> 0 \<longrightarrow>
           pg_pages a = Some \<lceil>real_of_int (pg_total a) / real_of_int (pg_limit a)\<rceil>)
      \<and> pg_hasNext a = Some (pg_current a * pg_limit a < pg_total a)
      \<and> pg_hasPrev a = Some (pg_current a > 1))
   \<and> (paging_of (getTasks e d r tq now) = Some b \<longrightarrow>
      pg_current b = set_opt (tq_page tq) 1
      \<and> pg_limit b = set_opt (tq_limit tq) 20
      \<and> pg_total b = int (length (filter (task_matches e r tq now) (tasks d)))
      \<and> (pg_limit b \<noteq> 0 \<longrightarrow>
           pg_pages b = Some \<lceil>real_of_int (pg_total b) / real_of_int (pg_limit b)\<rceil>)
      \<and> pg_hasNext b = Some (pg_current b * pg_limit b < pg_total b)
      \<and> pg_hasPrev b = Some (pg_current b > 1))
   \<and> (paging_of (getComments d taskId cq) = Some c \<longrightarrow>
      pg_current c = set_opt (cq_page cq) 1
      \<and> pg_limit c = set_opt (cq_limit cq) 20
      \<and> (\<exists>task. castObjectId taskId = Some task
            \<and> pg_total c = int (length (filter (top_level task) (comments d))))
      \<and> (pg_limit c \<noteq> 0 \<longrightarrow>
           pg_pages c = Some \<lceil>real_of_int (pg_total c) / real_of_int (pg_limit c)\<rceil>)
      \<and> pg_hasNext c = None
      \<and> pg_hasPrev c = None)"
proof (intro conjI impI)
  assume "paging_of (getProjects e d r pq) = Some a"
  then have a: "a = pagination_full (set_opt (pq_page pq) 1) (set_opt (pq_limit pq) 10)
      (int (length (filter (project_matches e r pq) (projects d))))"
    by (simp add: getProjects_paging split: if_splits)
  show "pg_current a = set_opt (pq_page pq) 1"
    and "pg_limit a = set_opt (pq_limit pq) 10"
    and "pg_total a = int (length (filter (project_matches e r pq) (projects d)))"
    and "pg_hasNext a = Some (pg_current a * pg_limit a < pg_total a)"
    and "pg_hasPrev a = Some (pg_current a > 1)"
    by (simp_all add: a pagination_full_def)
  show "pg_pages a = Some \<lceil>real_of_int (pg_total a) / real_of_int (pg_limit a)\<rceil>"
    if "pg_limit a \<noteq> 0"
    using that by (simp add: a pagination_full_def pages_of_def)
next
  assume "paging_of (getTasks e d r tq now) = Some b"
  then have b: "b = pagination_full (set_opt (tq_page tq) 1) (set_opt (tq_limit tq) 20)
      (int (length (filter (task_matches e r tq now) (tasks d))))"
    by (simp add: getTasks_paging split: if_splits)
  show "pg_current b = set_opt (tq_page tq) 1"
    and "pg_limit b = set_opt (tq_limit tq) 20"
    and "pg_total b = int (length (filter (task_matches e r tq now) (tasks d)))"
    and "pg_hasNext b = Some (pg_current b * pg_limit b < pg_total b)"
    and "pg_hasPrev b = Some (pg_current b > 1)"
    by (simp_all add: b pagination_full_def)
  show "pg_pages b = Some \<lceil>real_of_int (pg_total b) / real_of_int (pg_limit b)\<rceil>"
    if "pg_limit b \<noteq> 0"
    using that by (simp add: b pagination_full_def pages_of_def)
next
  assume "paging_of (getComments d taskId cq) = Some c"
  then obtain task where task: "castObjectId taskId = Some task"
    and c: "c = pagination_short (set_opt (cq_page cq) 1) (set_opt (cq_limit cq) 20)
      (int (length (filter (top_level task) (comments d))))"
    by (auto simp: getComments_paging split: option.splits if_splits)
  show "pg_current c = set_opt (cq_page cq) 1"
    and "pg_limit c = set_opt (cq_limit cq) 20"
    and "pg_hasNext c = None"
    and "pg_hasPrev c = None"
    by (simp_all add: c pagination_short_def)
  show "\<exists>task. castObjectId taskId = Some task
          \<and> pg_total c = int (length (filter (top_level task) (comments d)))"
    using task by (simp add: c pagination_short_def)
  show "pg_pages c = Some \<lceil>real_of_int (pg_total c) / real_of_int (pg_limit c)\<rceil>"
    if "pg_limit c \<noteq> 0"
    using that by (simp add: c pagination_short_def pages_of_def)
qed

theorem list_pagination_witness:
  "paging_of (getProjects ex_env ex_db ex_owner ex_project_query)
     = Some \<lparr>pg_current = 2, pg_pages = Some 1, pg_total = 1, pg_limit = 1,
             pg_hasNext = Some False, pg_hasPrev = Some True\<rparr>
   \<and> paging_of (getTasks ex_env ex_db ex_owner
        ((project_tasks_query alpha_id)\<lparr>tq_limit := Some 2\<rparr>) 50)
     = Some \<lparr>pg_current = 1, pg_pages = Some 2, pg_total = 3, pg_limit = 2,
             pg_hasNext = Some True, pg_hasPrev = Some False\<rparr>
   \<and> paging_of (getComments ex_db task1_id ex_comment_query)
     = Some \<lparr>pg_current = 1, pg_pages = Some 1, pg_total = 1, pg_limit = 20,
             pg_hasNext = None, pg_hasPrev = None\<rparr>"
  using list_pagination [of ex_env ex_db ex_owner ex_project_query
      "the (paging_of (getProjects ex_env ex_db ex_owner ex_project_query))"
      "(project_tasks_query alpha_id)\<lparr>tq_limit := Some 2\<rparr>" 50
      "the (paging_of (getTasks ex_env ex_db ex_owner
        ((project_tasks_query alpha_id)\<lparr>tq_limit := Some 2\<rparr>) 50))"
      task1_id ex_comment_query
      "the (paging_of (getComments ex_db task1_id ex_comment_query))"]
  by (simp add: getProjects_paging getTasks_paging getComments_paging pagination_full_def
      pagination_short_def pages_of_def project_matches_def task_matches_def top_level_def
      project_query_throws_def task_query_throws_def sortable_def
      ex_defs store_defs set_opt_def ceiling_eq_iff)

text \<open>
  The claim as stated fails for the comment list: the pagination object of a successful
  \<open>getComments\<close> has neither \<open>hasNext\<close> nor \<open>hasPrev\<close>.
\<close>

theorem comment_list_pagination_counterexample:
  "status (getComments ex_db task1_id ex_comment_query) = 200
   \<and> map_option pg_hasNext (paging_of (getComments ex_db task1_id ex_comment_query)) = Some None
   \<and> map_option pg_hasPrev (paging_of (getComments ex_db task1_id ex_comment_query)) = Some None"
  by (simp add: getComments_def paging_of_def skip_limit_def pagination_short_def
      ex_defs store_defs set_opt_def Let_def)

section \<open>The completion date of a task\<close>

text \<open>
  \<open>updateTaskStatus\<close> saves the task, so the \<open>pre('save')\<close> middleware keeps
  \<open>completedAt\<close> in step with the status: entering \<open>completed\<close> leaves a date, and
  leaving \<open>completed\<close> clears it.
\<close>

lemma updateTaskStatus_completedAt:
  assumes "findById t_id (tasks d) tid = Some t"
      and "updateTaskStatus d tid st new_order now = (res, d')"
      and "status res = 200"
  shows "\<exists>t'. findById t_id (tasks d') tid = Some t' \<and> t_status t' = st
           \<and> (t_status t \<noteq> ''completed'' \<and> st = ''completed'' \<longrightarrow> t_completedAt t' \<noteq> None)
           \<and> (t_status t \<noteq> ''completed'' \<and> st = ''completed'' \<and> t_completedAt t = None
                \<longrightarrow> t_completedAt t' = Some now)
           \<and> (t_status t = ''completed'' \<and> st \<noteq> ''completed'' \<longrightarrow> t_completedAt t' = None)"
proof -
  let ?t2 = "case new_order of None \<Rightarrow> t\<lparr>t_status := st\<rparr>
             | Some n \<Rightarrow> t\<lparr>t_status := st, t_order := to_double n\<rparr>"
  let ?t' = "TaskSchema_pre_save (st \<noteq> t_status t) now ?t2"
  have d': "d' = d\<lparr>tasks := save t_id ?t' (tasks d)\<rparr>"
    using assms by (auto simp: updateTaskStatus_def Let_def fail_def ok_def
        split: option.splits if_splits)
  have id': "t_id ?t' = t_id t"
    by (cases new_order) (simp_all add: TaskSchema_pre_save_def)
  have found: "findById t_id (tasks d') tid = Some ?t'"
    unfolding d' using findById_save [OF assms(1) id'] by simp
  have "t_status ?t' = st"
    and "t_status t \<noteq> ''completed'' \<and> st = ''completed'' \<longrightarrow> t_completedAt ?t' \<noteq> None"
    and "t_status t \<noteq> ''completed'' \<and> st = ''completed'' \<and> t_completedAt t = None
           \<longrightarrow> t_completedAt ?t' = Some now"
    and "t_status t = ''completed'' \<and> st \<noteq> ''completed'' \<longrightarrow> t_completedAt ?t' = None"
    by (cases new_order; auto simp: TaskSchema_pre_save_def)+
  with found show ?thesis by blast
qed

text \<open>
  C2 says that every operation that changes a task's status sets \<open>completedAt\<close> on
  entering \<open>completed\<close> and clears it on leaving, \<open>updateTask\<close> included. \<open>updateTask\<close>
  writes with \<open>findByIdAndUpdate\<close>, which runs no \<open>save\<close> middleware: on the store of
  the examples, \<open>updateTask\<close> moves \<open>task1_id\<close> from \<open>todo\<close> to \<open>completed\<close> and
  leaves \<open>completedAt\<close> unset, and moves \<open>task3_id\<close> from \<open>completed\<close> to \<open>todo\<close>
  and leaves its \<open>completedAt\<close> of 9 in place. \<open>updateTaskStatus\<close> on the same inputs
  sets the date (70) and clears it.
\<close>

theorem updateTask_skips_completedAt:
  "map_option t_status (findById t_id (tasks ex_db) task1_id) = Some ''todo''
   \<and> status (fst (updateTask ex_db task1_id (status_update ''completed''))) = 200
   \<and> map_option t_status (findById t_id
        (tasks (snd (updateTask ex_db task1_id (status_update ''completed'')))) task1_id)
       = Some ''completed''
   \<and> map_option t_completedAt (findById t_id
        (tasks (snd (updateTask ex_db task1_id (status_update ''completed'')))) task1_id)
       = Some None
   \<and> map_option t_completedAt (findById t_id (tasks ex_db) task3_id) = Some (Some 9)
   \<and> status (fst (updateTask ex_db task3_id (status_update ''todo''))) = 200
   \<and> map_option t_status (findById t_id
        (tasks (snd (updateTask ex_db task3_id (status_update ''todo'')))) task3_id)
       = Some ''todo''
   \<and> map_option t_completedAt (findById t_id
        (tasks (snd (updateTask ex_db task3_id (status_update ''todo'')))) task3_id)
       = Some (Some 9)
   \<and> map_option t_completedAt (findById t_id
        (tasks (snd (updateTaskStatus ex_db task1_id ''completed'' None 70))) task1_id)
       = Some (Some 70)
   \<and> map_option t_completedAt (findById t_id
        (tasks (snd (updateTaskStatus ex_db task3_id ''todo'' None 70))) task3_id)
       = Some None"
  by (simp add: updateTask_def updateTaskStatus_def apply_task_update_def
      TaskSchema_pre_save_def set_opt_def set_opt_field_def
      ex_defs store_defs task_defs Let_def)

section \<open>Duplicate members\<close>

text \<open>
  \<open>addMember\<close> rejects a user id that is the string of a member's id, and
  \<open>removeMember\<close> keeps a member list free of duplicates; so does \<open>addMember\<close> for a
  user id in the spelling of the store (the digits in lower case).
\<close>

lemma addMember_conflict:
  assumes "findById p_id (projects d) pid = Some p"
      and "uid \<in> set (member_ids p)"
      and "p_owner p = u_id r \<or> u_role r = ''admin''"
  shows "addMember d r pid uid role now
           = (fail 400 ''User is already a member of this project'', d)"
proof -
  obtain m where "find (\<lambda>m. m_user m = uid) (p_members p) = Some m"
    using assms(2) by (cases "find (\<lambda>m. m_user m = uid) (p_members p)")
      (auto simp: member_ids_def find_None_iff)
  with assms(1,3) findById_not_fails [OF assms(1)] show ?thesis
    by (auto simp: addMember_def Let_def)
qed

lemma addMember_keeps_distinct:
  assumes "findById p_id (projects d) pid = Some p"
      and "distinct (member_ids p)"
      and "castObjectId uid = Some uid"
      and "addMember d r pid uid role now = (res, d')"
  shows "\<exists>p'. findById p_id (projects d') pid = Some p' \<and> distinct (member_ids p')"
proof (cases "status res = 200")
  case False
  then have "d' = d"
    using assms(4)
    by (auto simp: addMember_def Let_def fail_def ok_def split: option.splits if_splits)
  with assms(1,2) show ?thesis by auto
next
  case True
  let ?p' = "p\<lparr>p_members := p_members p @
      [\<lparr>m_user = uid, m_role = (case role of None \<Rightarrow> ''member'' | Some x \<Rightarrow> x),
        m_joinedAt = now\<rparr>]\<rparr>"
  have new: "find (\<lambda>m. m_user m = uid) (p_members p) = None"
    and d': "d' = d\<lparr>projects := save p_id ?p' (projects d)\<rparr>"
    using assms(1,3,4) True
    by (auto simp: addMember_def Let_def fail_def ok_def ProjectSchema_pre_save_def
        split: option.splits if_splits)
  have "findById p_id (projects d') pid = Some ?p'"
    unfolding d' using findById_save [OF assms(1), of ?p'] by simp
  moreover have "distinct (member_ids ?p')"
    using assms(2) new by (auto simp: member_ids_def find_None_iff)
  ultimately show ?thesis by blast
qed

lemma removeMember_keeps_distinct:
  assumes "findById p_id (projects d) pid = Some p"
      and "distinct (member_ids p)"
      and "removeMember d r pid uid now = (res, d')"
  shows "\<exists>p'. findById p_id (projects d') pid = Some p' \<and> distinct (member_ids p')"
proof -
  let ?p' = "p\<lparr>p_members := filter (\<lambda>m. m_user m \<noteq> uid) (p_members p)\<rparr>"
  have found: "findById p_id (projects (d\<lparr>projects := save p_id ?p' (projects d)\<rparr>)) pid = Some ?p'"
    using findById_save [OF assms(1), of ?p'] by simp
  have dist: "distinct (member_ids ?p')"
    using assms(2) by (simp add: member_ids_def distinct_map_filter)
  show ?thesis
    using removeMember_cases [OF assms(3)] assms(1,2) found dist by auto
qed

text \<open>
  The duplicate check of \<open>addMember\<close> compares strings
  (\<open>m.user.toString() === userId\<close>), where the route (\<open>isMongoId\<close>) admits the digits
  of an id in upper case and the schema casts them to the same ObjectId: \<open>bob_id\<close> is a
  member of the project \<open>alpha_id\<close>; adding \<open>bob_id\<close> is answered 400, adding it in
  upper case is answered 200 and leaves two entries for \<open>bob_id\<close>.
\<close>

lemma addMember_other_spelling:
  "member_ids ex_project = [bob_id]
   \<and> castObjectId bob_id_upper = Some bob_id
   \<and> status (fst (addMember ex_db ex_owner alpha_id bob_id None 60)) = 400
   \<and> status (fst (addMember ex_db ex_owner alpha_id bob_id_upper None 60)) = 200
   \<and> map member_ids (projects (snd (addMember ex_db ex_owner alpha_id bob_id_upper None 60)))
       = [[bob_id, bob_id]]"
  by (simp add: addMember_def member_ids_def ProjectSchema_pre_save_def
      ex_defs store_defs project_defs Let_def)

text \<open>
  C5 says that no operation, \<open>createProject\<close> with a caller-supplied member list
  included, leaves two entries for one user in \<open>members\<close>. \<open>createProject\<close> stores the
  list of the request as it is: a request that names \<open>bob_id\<close> twice creates (201) a
  project whose member list holds \<open>bob_id\<close> twice.
\<close>

theorem createProject_duplicate_members:
  "status (fst (createProject ex_db ex_owner ex_project_input beta_id 60)) = 201
   \<and> map_option member_ids (data (fst (createProject ex_db ex_owner ex_project_input beta_id 60)))
       = Some [bob_id, bob_id]
   \<and> map member_ids (projects (snd (createProject ex_db ex_owner ex_project_input beta_id 60)))
       = [[bob_id], [bob_id, bob_id]]"
  by (simp add: createProject_def cast_member_def member_ids_def ProjectSchema_pre_save_def
      ex_defs store_defs project_defs Let_def)

end
